theory Spec2Isabelle
  imports Main "HOL-Library.Multiset" "HOL-Library.Char_ord" "HOL-Library.List_Lexorder"
begin

section \<open>Strings\<close>

text \<open>
  Python strings are modelled as \<^typ>\<open>string\<close>; a character is a code point below 256.
  \<open>str.strip()\<close> removes the characters for which \<open>str.isspace()\<close> holds, which below 256
  are 0x09 to 0x0D, 0x1C to 0x20, 0x85 and 0xA0; the class \<open>\s\<close> of \<open>re\<close> is the same.
\<close>

definition is_space :: "char \<Rightarrow> bool" where
  "is_space c = (let n = (of_char c :: nat) in (9 \<le> n \<and> n \<le> 13) \<or> (28 \<le> n \<and> n \<le> 32) \<or> n = 133 \<or> n = 160)"

definition lstrip :: "string \<Rightarrow> string" where
  "lstrip s = dropWhile is_space s"

definition rstrip :: "string \<Rightarrow> string" where
  "rstrip s = rev (dropWhile is_space (rev s))"

definition strip :: "string \<Rightarrow> string" where
  "strip s = rstrip (lstrip s)"

text \<open>
  \<open>str.lower()\<close>. Below 256 the letters with a small form are \<open>A\<close> to \<open>Z\<close> and 0xC0 to 0xDE
  without the sign 0xD7; the small form is 32 code points up.
\<close>

definition lower_char :: "char \<Rightarrow> char" where
  "lower_char c =
     (let n = (of_char c :: nat) in
      if (65 \<le> n \<and> n \<le> 90) \<or> (192 \<le> n \<and> n \<le> 222 \<and> n \<noteq> 215) then char_of (n + 32) else c)"

definition lower :: "string \<Rightarrow> string" where
  "lower s = map lower_char s"

text \<open>\<open>sep.join(xs)\<close>\<close>

fun join :: "string \<Rightarrow> string list \<Rightarrow> string" where
  "join sep [] = []"
| "join sep [x] = x"
| "join sep (x # y # ys) = x @ sep @ join sep (y # ys)"

section \<open>Mail ingester: label canonicalisation\<close>

text \<open>\<open>LABEL_ALIASES\<close> of \<open>imap_ingest_md_only.py\<close>, a dict from legacy to canonical names.\<close>

definition LABEL_ALIASES :: "string \<rightharpoonup> string" where
  "LABEL_ALIASES = map_of
     [(''AI/Ingest'', ''Save''),
      (''ai/ingest'', ''Save''),
      (''To-Embed'', ''Save''),
      (''Slack Thread'', ''Slack-Thread''),
      (''AI/Slack-Thread'', ''Slack-Thread'')]"

text \<open>\<open>LABEL_ALIASES.get(lbl.strip(), lbl.strip())\<close>\<close>

definition alias_of :: "string \<Rightarrow> string" where
  "alias_of lbl = (case LABEL_ALIASES (strip lbl) of Some c \<Rightarrow> c | None \<Rightarrow> strip lbl)"

text \<open>The loop of \<open>canonicalize_labels\<close>, with the list \<open>out\<close> as accumulator.\<close>

fun canonicalize_loop :: "string list \<Rightarrow> string list \<Rightarrow> string list" where
  "canonicalize_loop out [] = out"
| "canonicalize_loop out (lbl # labels) =
     (let l = alias_of lbl
      in canonicalize_loop (if l \<notin> set out then out @ [l] else out) labels)"

definition canonicalize_labels :: "string list \<Rightarrow> string list" where
  "canonicalize_labels labels = canonicalize_loop [] labels"

definition wants_processing :: "string list \<Rightarrow> bool" where
  "wants_processing labels = list_ex (\<lambda>l. l = ''Save'' \<or> l = ''Slack-Thread'') labels"

definition infer_doc_type :: "string list \<Rightarrow> string" where
  "infer_doc_type labels = (if ''Slack-Thread'' \<in> set labels then ''slack'' else ''email'')"

text \<open>
  The specification's wording, for comparison with the code. The mapping: a label that,
  trimmed, is one of the five legacy names stands for the canonical name of that legacy
  name, and every other label for itself, trimmed. The deduplication: every name is kept
  at its first occurrence and dropped at the later ones.
\<close>

definition canonical_name :: "string \<Rightarrow> string" where
  "canonical_name lbl =
     (let s = strip lbl in
      if s = ''AI/Ingest'' \<or> s = ''ai/ingest'' \<or> s = ''To-Embed'' then ''Save''
      else if s = ''Slack Thread'' \<or> s = ''AI/Slack-Thread'' then ''Slack-Thread''
      else s)"

fun first_seen :: "'a list \<Rightarrow> 'a list" where
  "first_seen [] = []"
| "first_seen (x # xs) = x # first_seen (filter (\<lambda>y. y \<noteq> x) xs)"

section \<open>Mail ingester: JSON serialisation and checksum\<close>

text \<open>Decimal rendering of integers, as \<open>str(n)\<close> and \<open>json.dumps(n)\<close> give it.\<close>

definition digit_char :: "nat \<Rightarrow> char" where
  "digit_char n = char_of (48 + n)"

fun string_of_nat :: "nat \<Rightarrow> string" where
  "string_of_nat n =
     (if n < 10 then [digit_char n] else string_of_nat (n div 10) @ [digit_char (n mod 10)])"

declare string_of_nat.simps [simp del]

definition string_of_int :: "int \<Rightarrow> string" where
  "string_of_int i = (if i < 0 then CHR ''-'' # string_of_nat (nat (- i)) else string_of_nat (nat i))"

text \<open>
  The values that \<open>json.dumps\<close> is given in this program. A dict is the list of its items in
  insertion order; its keys are strings and pairwise different.
\<close>

datatype json =
    JNull
  | JInt int
  | JStr string
  | JList "json list"
  | JDict "(string \<times> json) list"

text \<open>
  A string literal under \<open>ensure_ascii=True\<close>: the quote and the backslash are escaped with a
  backslash, \<open>\n \r \t \b \f\<close> by their letter, and every other character outside
  0x20 to 0x7E as \<open>\u00XX\<close>.
\<close>

definition hex_digit :: "nat \<Rightarrow> char" where
  "hex_digit n = (if n < 10 then char_of (48 + n) else char_of (87 + n))"

definition json_escape_char :: "char \<Rightarrow> string" where
  "json_escape_char c =
     (let n = (of_char c :: nat) in
      if n = 0x22 then [CHR 0x5C, CHR 0x22]
      else if n = 0x5C then [CHR 0x5C, CHR 0x5C]
      else if n = 0x0A then [CHR 0x5C, CHR ''n'']
      else if n = 0x0D then [CHR 0x5C, CHR ''r'']
      else if n = 0x09 then [CHR 0x5C, CHR ''t'']
      else if n = 0x08 then [CHR 0x5C, CHR ''b'']
      else if n = 0x0C then [CHR 0x5C, CHR ''f'']
      else if n < 0x20 \<or> 0x7E < n
        then [CHR 0x5C, CHR ''u'', CHR ''0'', CHR ''0'', hex_digit (n div 16), hex_digit (n mod 16)]
      else [c])"

definition json_string :: "string \<Rightarrow> string" where
  "json_string s = CHR 0x22 # concat (map json_escape_char s) @ [CHR 0x22]"

text \<open>
  \<open>json.dumps(v, sort_keys=b)\<close> with the default separators: the elements of a list are
  written in their own order, the items of a dict in the order of their keys when
  \<open>sort_keys\<close> is set and in insertion order otherwise.
\<close>

fun json_dumps :: "bool \<Rightarrow> json \<Rightarrow> string" where
  "json_dumps sort_keys JNull = ''null''"
| "json_dumps sort_keys (JInt i) = string_of_int i"
| "json_dumps sort_keys (JStr s) = json_string s"
| "json_dumps sort_keys (JList vs) = ''['' @ join '', '' (map (json_dumps sort_keys) vs) @ '']''"
| "json_dumps sort_keys (JDict kvs) =
     ''{'' @ join '', ''
        (map (\<lambda>(k, s). json_string k @ '': '' @ s)
          ((if sort_keys then sort_key fst else id)
             (map (\<lambda>(k, v). (k, json_dumps sort_keys v)) kvs))) @ ''}''"

text \<open>
  \<open>checksum_for\<close>. The digest \<open>hashlib.sha256(...).hexdigest()\<close> is a parameter: a function
  from the serialised bytes to the hexadecimal digest.
\<close>

definition checksum_for :: "(string \<Rightarrow> string) \<Rightarrow> (string \<times> json) list \<Rightarrow> string" where
  "checksum_for digest payload = ''sha256:'' @ digest (json_dumps True (JDict payload))"

section \<open>Transcript extractor: the video identifier of a URL\<close>

text \<open>The exceptions of the Python programs that the models distinguish.\<close>

datatype py_error = ValueError | IndexError | OSError | OverflowError

text \<open>
  The attributes of \<open>urlparse(url)\<close> that \<open>extract_video_id\<close> reads: \<open>hostname\<close> is \<open>None\<close>
  when the URL has no host.
\<close>

record parse_result =
  hostname :: "string option"
  path :: string
  query :: string

text \<open>\<open>s.split(c)\<close> for a one-character separator: one piece more than there are separators.\<close>

fun split_on :: "char \<Rightarrow> string \<Rightarrow> string list" where
  "split_on c [] = [[]]"
| "split_on c (x # xs) =
     (if x = c then [] # split_on c xs
      else (case split_on c xs of [] \<Rightarrow> [[x]] | p # ps \<Rightarrow> (x # p) # ps))"

text \<open>\<open>xs[i]\<close> for \<open>i \<ge> 0\<close>; out of range raises \<open>IndexError\<close>.\<close>

definition index_at :: "'a list \<Rightarrow> nat \<Rightarrow> py_error + 'a" where
  "index_at xs i = (if i < length xs then Inr (xs ! i) else Inl IndexError)"

definition startswith :: "string \<Rightarrow> string \<Rightarrow> bool" where
  "startswith s p = (take (length p) s = p)"

text \<open>
  \<open>extract_video_id\<close>. The two library functions are parameters: \<open>urlparse\<close>, which returns a
  parse result or raises, and \<open>parse_qs\<close>, which maps a key of the query string to the
  list of its values; that list is never empty, so it is given as its first element and
  the others. A key that is absent stands for the default \<open>[None]\<close>, whose first element is
  \<open>None\<close>. The function has no handler: what \<open>urlparse\<close> raises leaves it.
\<close>

definition extract_video_id ::
  "(string \<Rightarrow> py_error + parse_result) \<Rightarrow> (string \<Rightarrow> string \<rightharpoonup> string \<times> string list)
     \<Rightarrow> string \<Rightarrow> py_error + string option" where
  "extract_video_id urlparse parse_qs url =
     (case urlparse url of
        Inl e \<Rightarrow> Inl e
      | Inr parsed \<Rightarrow>
          if hostname parsed = Some ''www.youtube.com'' \<or> hostname parsed = Some ''youtube.com'' then
            if path parsed = ''/watch'' then
              (case parse_qs (query parsed) ''v'' of
                 None \<Rightarrow> Inr None
               | Some (v, _) \<Rightarrow> Inr (Some v))
            else if startswith (path parsed) ''/embed/'' then
              (case index_at (split_on CHR ''/'' (path parsed)) 2 of
                 Inl e \<Rightarrow> Inl e
               | Inr v \<Rightarrow> Inr (Some v))
            else Inr None
          else if hostname parsed = Some ''youtu.be'' then Inr (Some (drop 1 (path parsed)))
          else Inr None)"

text \<open>
  The first steps of \<open>main\<close>: a video identifier that is \<open>None\<close> or empty is reported as
  an invalid URL on the error stream and the process exits with status 1; an exception
  of \<open>extract_video_id\<close> is outside the \<open>try\<close> block and ends the process with a traceback.
\<close>

datatype main_outcome =
    Invalid_URL_exit_1
  | Proceed string
  | Uncaught py_error

definition main_video_id ::
  "(string \<Rightarrow> py_error + parse_result) \<Rightarrow> (string \<Rightarrow> string \<rightharpoonup> string \<times> string list)
     \<Rightarrow> string \<Rightarrow> main_outcome" where
  "main_video_id urlparse parse_qs url =
     (case extract_video_id urlparse parse_qs url of
        Inl e \<Rightarrow> Uncaught e
      | Inr None \<Rightarrow> Invalid_URL_exit_1
      | Inr (Some v) \<Rightarrow> (if v = [] then Invalid_URL_exit_1 else Proceed v))"

text \<open>
  \<open>urllib.parse.urlparse\<close> of the standard library (CPython 3.12, \<open>Lib/urllib/parse.py\<close>),
  for the three attributes above. Two checks that the library makes on the authority are
  left out, the validation of a bracketed host as an IP literal and the NFKC check of a
  non-ASCII authority; both can only raise \<open>ValueError\<close> where this model returns, and
  neither applies to an authority without brackets made of ASCII characters.
\<close>

definition is_ascii_alpha :: "char \<Rightarrow> bool" where
  "is_ascii_alpha c = (let n = (of_char c :: nat) in (65 \<le> n \<and> n \<le> 90) \<or> (97 \<le> n \<and> n \<le> 122))"

definition is_scheme_char :: "char \<Rightarrow> bool" where
  "is_scheme_char c =
     (let n = (of_char c :: nat) in
      is_ascii_alpha c \<or> (48 \<le> n \<and> n \<le> 57) \<or> c = CHR ''+'' \<or> c = CHR ''-'' \<or> c = CHR ''.'')"

definition uses_params :: "string list" where
  "uses_params = ['''', ''ftp'', ''hdl'', ''prospero'', ''http'', ''imap'', ''https'', ''shttp'',
     ''rtsp'', ''rtspu'', ''sip'', ''sips'', ''mms'', ''sftp'', ''tel'']"

text \<open>The scheme, if the text before the first colon is one, and the rest of the URL.\<close>

definition split_scheme :: "string \<Rightarrow> string \<times> string" where
  "split_scheme url =
     (let pre = takeWhile (\<lambda>c. c \<noteq> CHR '':'') url in
      if pre \<noteq> [] \<and> length pre < length url \<and> is_ascii_alpha (hd url) \<and> list_all is_scheme_char pre
      then (lower pre, drop (length pre + 1) url)
      else ('''', url))"

text \<open>\<open>_splitparams\<close>: the parameters after the first semicolon of the last path segment.\<close>

definition splitparams :: "string \<Rightarrow> string" where
  "splitparams url =
     (if CHR ''/'' \<in> set url then
        (let last_seg = rev (takeWhile (\<lambda>c. c \<noteq> CHR ''/'') (rev url));
             before = take (length url - length last_seg) url
         in before @ takeWhile (\<lambda>c. c \<noteq> CHR '';'') last_seg)
      else takeWhile (\<lambda>c. c \<noteq> CHR '';'') url)"

text \<open>The \<open>hostname\<close> property of a parse result, from its \<open>netloc\<close>.\<close>

definition hostname_of :: "string \<Rightarrow> string option" where
  "hostname_of netloc =
     (let hostinfo = rev (takeWhile (\<lambda>c. c \<noteq> CHR ''@'') (rev netloc));
          host =
            (if CHR ''['' \<in> set hostinfo
             then takeWhile (\<lambda>c. c \<noteq> CHR '']'') (drop 1 (dropWhile (\<lambda>c. c \<noteq> CHR ''['') hostinfo))
             else takeWhile (\<lambda>c. c \<noteq> CHR '':'') hostinfo)
      in if host = [] then None
         else Some (lower (takeWhile (\<lambda>c. c \<noteq> CHR ''%'') host) @ dropWhile (\<lambda>c. c \<noteq> CHR ''%'') host))"

definition urlparse :: "string \<Rightarrow> py_error + parse_result" where
  "urlparse url0 =
     (let url1 = filter (\<lambda>c. c \<noteq> CHR 0x09 \<and> c \<noteq> CHR 0x0A \<and> c \<noteq> CHR 0x0D)
                   (dropWhile (\<lambda>c. (of_char c :: nat) \<le> 32) url0);
          (scheme, url2) = split_scheme url1;
          has_netloc = (take 2 url2 = ''//'');
          is_delim = (\<lambda>c. c = CHR ''/'' \<or> c = CHR ''?'' \<or> c = CHR ''#'');
          netloc = (if has_netloc then takeWhile (\<lambda>c. \<not> is_delim c) (drop 2 url2) else '''');
          url3 = (if has_netloc then dropWhile (\<lambda>c. \<not> is_delim c) (drop 2 url2) else url2)
      in if (CHR ''['' \<in> set netloc \<and> CHR '']'' \<notin> set netloc)
            \<or> (CHR '']'' \<in> set netloc \<and> CHR ''['' \<notin> set netloc)
         then Inl ValueError
         else
           (let url4 = takeWhile (\<lambda>c. c \<noteq> CHR ''#'') url3;
                url5 = takeWhile (\<lambda>c. c \<noteq> CHR ''?'') url4;
                qry = drop 1 (dropWhile (\<lambda>c. c \<noteq> CHR ''?'') url4);
                pth = (if scheme \<in> set uses_params \<and> CHR '';'' \<in> set url5 then splitparams url5 else url5)
            in Inr \<lparr>hostname = hostname_of netloc, path = pth, query = qry\<rparr>))"

text \<open>
  \<open>urllib.parse.parse_qs\<close> with its default arguments, for query strings whose percent
  escapes stand for characters below 0x80: the fields are separated by \<open>&\<close>, a field
  without \<open>=\<close> or with an empty value is dropped, and \<open>+\<close> and \<open>%XX\<close> are decoded in names
  and values.
\<close>

definition hex_value :: "char \<Rightarrow> nat option" where
  "hex_value c =
     (let n = (of_char c :: nat) in
      if 48 \<le> n \<and> n \<le> 57 then Some (n - 48)
      else if 97 \<le> n \<and> n \<le> 102 then Some (n - 87)
      else if 65 \<le> n \<and> n \<le> 70 then Some (n - 55)
      else None)"

fun unquote :: "string \<Rightarrow> string" where
  "unquote (c # h # l # s) =
     (if c = CHR ''%'' then
        (case (hex_value h, hex_value l) of
           (Some a, Some b) \<Rightarrow> char_of (16 * a + b) # unquote s
         | _ \<Rightarrow> c # unquote (h # l # s))
      else c # unquote (h # l # s))"
| "unquote s = s"

definition unquote_plus :: "string \<Rightarrow> string" where
  "unquote_plus s = unquote (map (\<lambda>c. if c = CHR ''+'' then CHR '' '' else c) s)"

definition parse_qsl :: "string \<Rightarrow> (string \<times> string) list" where
  "parse_qsl qs =
     concat (map (\<lambda>field.
        if CHR ''='' \<notin> set field then []
        else (let name = takeWhile (\<lambda>c. c \<noteq> CHR ''='') field;
                  val = drop 1 (dropWhile (\<lambda>c. c \<noteq> CHR ''='') field)
              in if val = [] then [] else [(unquote_plus name, unquote_plus val)]))
       (split_on CHR ''&'' qs))"

definition parse_qs :: "string \<Rightarrow> string \<rightharpoonup> string \<times> string list" where
  "parse_qs qs name =
     (case map snd (filter (\<lambda>(n, v). n = name) (parse_qsl qs)) of
        [] \<Rightarrow> None
      | v # vs \<Rightarrow> Some (v, vs))"

section \<open>Calendar script: filtering the events of the window\<close>

text \<open>
  An event of the Calendar API as the script reads it: a key that is absent is \<open>None\<close>, the
  attendee list that is absent is empty. The \<open>start\<close> and \<open>end\<close> objects are flattened.
\<close>

record attendee =
  att_email :: "string option"
  att_responseStatus :: "string option"

record event =
  ev_eventType :: "string option"
  ev_attendees :: "attendee list"
  ev_start_dateTime :: "string option"
  ev_start_date :: "string option"
  ev_end_dateTime :: "string option"
  ev_end_date :: "string option"
  ev_summary :: "string option"
  ev_id :: "string option"
  ev_location :: "string option"
  ev_description :: "string option"
  ev_organizer_email :: "string option"
  ev_status :: "string option"
  ev_htmlLink :: "string option"

text \<open>
  A \<open>datetime\<close>, in microseconds: a naive one is its wall-clock reading, an aware one is
  its instant on the UTC time line and its offset from UTC.
\<close>

datatype datetime = Naive int | Aware int int

text \<open>
  The library functions that the script calls on timestamps, as parameters:
  \<open>datetime.fromisoformat\<close> and \<open>datetime.strptime(s, '%Y-%m-%d')\<close>, which raise on a
  malformed string, \<open>astimezone()\<close> at an instant, which gives the UTC offset of the local
  zone there or raises (\<open>OverflowError\<close> near the ends of the range of dates), and
  \<open>strftime\<close> with the formats \<open>%Y-%m-%d\<close> and \<open>%H:%M:%S\<close> on a wall-clock reading.
\<close>

record time_lib =
  fromisoformat :: "string \<Rightarrow> py_error + datetime"
  strptime_ymd :: "string \<Rightarrow> py_error + datetime"
  local_utcoffset :: "int \<Rightarrow> py_error + int"
  strftime_ymd :: "int \<Rightarrow> string"
  strftime_hms :: "int \<Rightarrow> string"

definition wall_clock :: "datetime \<Rightarrow> int" where
  "wall_clock d = (case d of Naive w \<Rightarrow> w | Aware i off \<Rightarrow> i + off)"

text \<open>
  \<open>d.astimezone()\<close> of the aware datetime at instant \<open>i\<close>: the instant stays, or the call
  raises.
\<close>

definition astimezone :: "time_lib \<Rightarrow> int \<Rightarrow> py_error + datetime" where
  "astimezone lib i = map_sum id (Aware i) (local_utcoffset lib i)"

text \<open>\<open>d.replace(tzinfo=timezone.utc)\<close>: the wall-clock reading, taken as UTC.\<close>

definition replace_utc :: "datetime \<Rightarrow> datetime" where
  "replace_utc d = Aware (wall_clock d) 0"

definition instant :: "datetime \<Rightarrow> int" where
  "instant d = (case d of Naive w \<Rightarrow> w | Aware i off \<Rightarrow> i)"

text \<open>\<open>a or b\<close> on optional strings, and the truth value of the result.\<close>

definition truthy :: "string option \<Rightarrow> bool" where
  "truthy a = (case a of None \<Rightarrow> False | Some s \<Rightarrow> s \<noteq> [])"

definition py_or :: "string option \<Rightarrow> string option \<Rightarrow> string option" where
  "py_or a b = (if truthy a then a else b)"

definition get_default :: "string option \<Rightarrow> string \<Rightarrow> string" where
  "get_default a d = (case a of None \<Rightarrow> d | Some s \<Rightarrow> s)"

definition endswith :: "string \<Rightarrow> string \<Rightarrow> bool" where
  "endswith s p = (length p \<le> length s \<and> drop (length s - length p) s = p)"

definition is_user_invited :: "event \<Rightarrow> string \<Rightarrow> bool" where
  "is_user_invited ev user_email =
     (if ev_attendees ev = [] then True
      else list_ex (\<lambda>a. lower (get_default (att_email a) '''') = lower user_email) (ev_attendees ev))"

text \<open>The loop of \<open>has_user_declined\<close> returns at the first attendee with the user's address.\<close>

fun declined_loop :: "attendee list \<Rightarrow> string \<Rightarrow> bool" where
  "declined_loop [] user_email = False"
| "declined_loop (a # as) user_email =
     (if lower (get_default (att_email a) '''') = lower user_email
      then att_responseStatus a = Some ''declined''
      else declined_loop as user_email)"

definition has_user_declined :: "event \<Rightarrow> string \<Rightarrow> bool" where
  "has_user_declined ev user_email = declined_loop (ev_attendees ev) user_email"

text \<open>The \<open>Z\<close> suffix is rewritten to \<open>+00:00\<close> before \<open>fromisoformat\<close>.\<close>

definition parse_iso_z :: "time_lib \<Rightarrow> string \<Rightarrow> py_error + datetime" where
  "parse_iso_z lib s =
     fromisoformat lib (if endswith s ''Z'' then butlast s @ ''+00:00'' else s)"

definition format_datetime :: "time_lib \<Rightarrow> string option \<Rightarrow> py_error + string \<times> string" where
  "format_datetime lib dt_str =
     (if \<not> truthy dt_str then Inr ('''', '''')
      else
        (let s = the dt_str in
         if CHR ''T'' \<in> set s then
           (case (case parse_iso_z lib s of
                    Inl e \<Rightarrow> Inl e
                  | Inr d \<Rightarrow> (case d of Naive w \<Rightarrow> Inr d | Aware i off \<Rightarrow> astimezone lib i)) of
              Inl ValueError \<Rightarrow> Inr ('''', '''')
            | Inl e \<Rightarrow> Inl e
            | Inr d' \<Rightarrow> Inr (strftime_ymd lib (wall_clock d'), strftime_hms lib (wall_clock d')))
         else Inr (s, ''00:00:00'')))"

definition get_accepted_attendees :: "event \<Rightarrow> string list" where
  "get_accepted_attendees ev =
     concat (map (\<lambda>a.
        if get_default (att_responseStatus a) ''needsAction'' \<in> {''accepted'', ''tentative''}
           \<and> truthy (att_email a)
        then [the (att_email a)] else []) (ev_attendees ev))"

text \<open>
  The start of the event as the filter reads it (the \<open>try\<close> block of the loop): a
  datetime without zone, and a date, are taken as UTC.
\<close>

definition event_start :: "time_lib \<Rightarrow> string \<Rightarrow> py_error + datetime" where
  "event_start lib s =
     (if CHR ''T'' \<in> set s then
        (case parse_iso_z lib s of
           Inl e \<Rightarrow> Inl e
         | Inr d \<Rightarrow>
             (case d of Aware i off \<Rightarrow> astimezone lib i
                      | Naive w \<Rightarrow> astimezone lib (instant (replace_utc d))))
      else
        (case strptime_ymd lib s of
           Inl e \<Rightarrow> Inl e
         | Inr d \<Rightarrow> astimezone lib (instant (replace_utc d))))"

record formatted_event =
  fe_date :: string
  fe_start_time :: string
  fe_end_time :: string
  fe_title :: string
  fe_accepted_attendees :: "string list"
  fe_event_id :: string
  fe_location :: string
  fe_description :: string
  fe_organizer :: string
  fe_status :: string
  fe_html_link :: string

definition format_event :: "time_lib \<Rightarrow> event \<Rightarrow> py_error + formatted_event" where
  "format_event lib ev =
     (case format_datetime lib (py_or (ev_start_dateTime ev) (ev_start_date ev)) of
        Inl e \<Rightarrow> Inl e
      | Inr (start_date, start_time) \<Rightarrow>
     (case format_datetime lib (py_or (ev_end_dateTime ev) (ev_end_date ev)) of
        Inl e \<Rightarrow> Inl e
      | Inr (end_date, end_time) \<Rightarrow>
          (let all_day = ((start_time = [] \<or> start_time = ''00:00:00'') \<and> truthy (ev_start_date ev))
           in Inr \<lparr>fe_date = start_date,
                  fe_start_time = (if all_day then ''00:00:00'' else start_time),
                  fe_end_time = (if all_day then ''23:59:59'' else end_time),
                  fe_title = get_default (ev_summary ev) ''No Title'',
                  fe_accepted_attendees = get_accepted_attendees ev,
                  fe_event_id = get_default (ev_id ev) '''',
                  fe_location = get_default (ev_location ev) '''',
                  fe_description = get_default (ev_description ev) '''',
                  fe_organizer = get_default (ev_organizer_email ev) '''',
                  fe_status = get_default (ev_status ev) '''',
                  fe_html_link = get_default (ev_htmlLink ev) ''''\<rparr>)))"

text \<open>
  One pass of the loop of \<open>fetch_today_events\<close>: \<open>Inr None\<close> is \<open>continue\<close>, \<open>Inr (Some f)\<close>
  appends \<open>f\<close>. \<open>ValueError\<close> in the \<open>try\<close> block is passed over; any other exception
  leaves the loop for the handler of the function. \<open>now\<close> is \<open>datetime.now().astimezone()\<close>.
\<close>

definition filter_event :: "time_lib \<Rightarrow> datetime \<Rightarrow> string \<Rightarrow> event \<Rightarrow> py_error + formatted_event option" where
  "filter_event lib now user_email ev =
     (if ev_eventType ev = Some ''workingLocation'' then Inr None
      else if \<not> is_user_invited ev user_email then Inr None
      else
        (let start_time_str = py_or (ev_start_dateTime ev) (ev_start_date ev);
             checked =
               (if truthy start_time_str then
                  (case event_start lib (the start_time_str) of
                     Inr event_dt \<Rightarrow>
                       Inr (instant event_dt > instant now \<and> has_user_declined ev user_email)
                   | Inl ValueError \<Rightarrow> Inr False
                   | Inl e \<Rightarrow> Inl e)
                else Inr False)
         in case checked of
              Inl e \<Rightarrow> Inl e
            | Inr True \<Rightarrow> Inr None
            | Inr False \<Rightarrow> map_sum id Some (format_event lib ev)))"

fun filter_events :: "time_lib \<Rightarrow> datetime \<Rightarrow> string \<Rightarrow> event list \<Rightarrow> py_error + formatted_event list" where
  "filter_events lib now user_email [] = Inr []"
| "filter_events lib now user_email (ev # evs) =
     (case filter_event lib now user_email ev of
        Inl e \<Rightarrow> Inl e
      | Inr r \<Rightarrow>
          (case filter_events lib now user_email evs of
             Inl e \<Rightarrow> Inl e
           | Inr fs \<Rightarrow> Inr ((case r of None \<Rightarrow> [] | Some f \<Rightarrow> [f]) @ fs)))"

text \<open>
  An all-day event of 2 January 2025 that the user has declined, seen at 17:00 of 1 January
  in a zone eight hours behind UTC (01:00 of 2 January, UTC), and the values of the library
  functions there.
\<close>

definition pacific_time_lib :: time_lib where
  "pacific_time_lib =
     \<lparr>fromisoformat = (\<lambda>s. Inl ValueError),
      strptime_ymd = (\<lambda>s.
         if s = ''2025-01-02'' then Inr (Naive 1735776000000000) else Inl ValueError),
      local_utcoffset = (\<lambda>i. Inr (- 28800000000)),
      strftime_ymd = (\<lambda>w. ''1970-01-01''),
      strftime_hms = (\<lambda>w. ''00:00:00'')\<rparr>"

definition pacific_now :: datetime where
  "pacific_now = Aware 1735779600000000 (- 28800000000)"

definition all_day_tomorrow :: event where
  "all_day_tomorrow =
     \<lparr>ev_eventType = None,
      ev_attendees = [\<lparr>att_email = Some ''boss@example.com'', att_responseStatus = Some ''accepted''\<rparr>,
                      \<lparr>att_email = Some ''me@example.com'', att_responseStatus = Some ''declined''\<rparr>],
      ev_start_dateTime = None,
      ev_start_date = Some ''2025-01-02'',
      ev_end_dateTime = None,
      ev_end_date = Some ''2025-01-03'',
      ev_summary = Some ''Offsite'',
      ev_id = Some ''e2'',
      ev_location = None,
      ev_description = None,
      ev_organizer_email = Some ''boss@example.com'',
      ev_status = Some ''confirmed'',
      ev_htmlLink = None\<rparr>"

section \<open>Mail ingester: documents\<close>

type_synonym fpath = string

text \<open>
  A node of the file system as the ingester sees it: a text file, or something that exists
  and cannot be read as text.
\<close>

datatype fs_node = File string | Unreadable

text \<open>
  A parsed message: the headers that the ingester reads (\<open>None\<close> when the header is
  absent) and the MIME content, which only \<open>body_from_email\<close> looks at.
\<close>

record message =
  h_subject :: "string option"
  h_from :: "string option"
  h_to :: "string option"
  h_cc :: "string option"
  h_message_id :: "string option"
  h_date :: "string option"
  m_content :: string

text \<open>
  What the IMAP server returned for one UID: the raw message (\<open>BODY[]\<close> or \<open>RFC822\<close>),
  the labels, the two Gmail identifiers and \<open>INTERNALDATE\<close>, which is \<open>None\<close> when the
  server gave no datetime.
\<close>

record fetched =
  f_uid :: nat
  f_raw :: "string option"
  f_labels :: "string list"
  f_gm_msgid :: "nat option"
  f_gm_thrid :: "nat option"
  f_internaldate :: "datetime option"

text \<open>
  The library functions and the surroundings of a run, as parameters: the parser of
  \<open>email\<close>, the decoding of header words, \<open>email.utils.getaddresses\<close>, the text of the
  body (\<open>body_from_email\<close>), \<open>email.utils.parsedate_to_datetime\<close>, \<open>isoformat\<close>,
  \<open>astimezone()\<close>, the local year and month of an ISO timestamp, \<open>slugify\<close>, the two
  digests, the Markdown files that \<open>rglob\<close> finds below the directories of the last three
  years, the two regular-expression searches of \<open>extract_ids_from_file_head\<close>, the
  paths at which a document can be written, the vault root, and whether the index file
  and the legacy state file can be written. A path is the string that \<open>pathlib\<close> prints
  for it. A library call inside \<open>build_markdown\<close> can raise where the code has no handler
  (\<open>astimezone()\<close> raises \<open>OverflowError\<close> on a date at either end of the range of dates):
  \<open>build_raises\<close> gives that exception for a message and its \<open>INTERNALDATE\<close>, and the other
  functions give the values of the calls that return.
\<close>

record mail_env =
  message_from_bytes :: "string \<Rightarrow> py_error + message"
  decode_header_words :: "string \<Rightarrow> string"
  getaddresses :: "string \<Rightarrow> (string \<times> string) list"
  body_from_email :: "message \<Rightarrow> string"
  parsedate_to_datetime :: "string \<Rightarrow> py_error + datetime"
  isoformat :: "datetime \<Rightarrow> string"
  astimezone_local :: "datetime \<Rightarrow> datetime"
  local_year_month :: "string \<Rightarrow> nat \<times> nat"
  slugify :: "string \<Rightarrow> string"
  md5_hex :: "string \<Rightarrow> string"
  sha256_hexdigest :: "string \<Rightarrow> string"
  recent_md_files :: "(fpath \<rightharpoonup> fs_node) \<Rightarrow> fpath list"
  head_ids :: "string \<Rightarrow> string option \<times> nat option"
  writable :: "fpath \<Rightarrow> bool"
  vault_root :: fpath
  index_file_writable :: bool
  state_file_writable :: bool
  build_raises :: "message \<Rightarrow> datetime option \<Rightarrow> py_error option"

definition decode_words :: "mail_env \<Rightarrow> string \<Rightarrow> string" where
  "decode_words env s = (if s = [] then [] else decode_header_words env s)"

text \<open>\<open>s.strip(chars)\<close>\<close>

definition strip_chars :: "char set \<Rightarrow> string \<Rightarrow> string" where
  "strip_chars cs s = rev (dropWhile (\<lambda>c. c \<in> cs) (rev (dropWhile (\<lambda>c. c \<in> cs) s)))"

definition parse_addr_list :: "mail_env \<Rightarrow> string \<Rightarrow> (string \<times> string) list" where
  "parse_addr_list env hdr_val =
     (if hdr_val = [] then []
      else map (\<lambda>(name, addr). (strip_chars {CHR 0x22} (decode_words env name), addr))
             (getaddresses env hdr_val))"

text \<open>
  \<open>parsedate_to_iso\<close>. The clock is read only where the \<open>or\<close> chain reaches it: when there
  is no date from the header and no fallback.
\<close>

definition parsedate_to_iso :: "mail_env \<Rightarrow> datetime \<Rightarrow> string option \<Rightarrow> datetime option \<Rightarrow> string" where
  "parsedate_to_iso env now hdr_date fallback_dt =
     (case (if truthy hdr_date then map_sum id Some (parsedate_to_datetime env (the hdr_date))
            else Inr None) of
        Inr d0 \<Rightarrow>
          (let d = map_option (\<lambda>d. case d of Naive w \<Rightarrow> replace_utc d | Aware i off \<Rightarrow> d) d0
           in isoformat env
                (case d of Some x \<Rightarrow> x
                 | None \<Rightarrow> (case fallback_dt of Some f \<Rightarrow> f | None \<Rightarrow> now)))
      | Inl e \<Rightarrow>
          isoformat env (astimezone_local env (case fallback_dt of Some f \<Rightarrow> f | None \<Rightarrow> now)))"

text \<open>\<open>s[-n:]\<close> for \<open>n > 0\<close>\<close>

definition last_chars :: "nat \<Rightarrow> string \<Rightarrow> string" where
  "last_chars n s = drop (length s - n) s"

text \<open>An identifier of Gmail that is \<open>None\<close> or zero is false in a condition.\<close>

definition truthy_id :: "nat option \<Rightarrow> nat option" where
  "truthy_id g = (case g of None \<Rightarrow> None | Some n \<Rightarrow> if n = 0 then None else Some n)"

definition id_or_empty :: "nat option \<Rightarrow> string" where
  "id_or_empty g = (case truthy_id g of None \<Rightarrow> [] | Some n \<Rightarrow> string_of_nat n)"

definition json_opt_nat :: "nat option \<Rightarrow> json" where
  "json_opt_nat g = (case g of None \<Rightarrow> JNull | Some n \<Rightarrow> JInt (int n))"

definition json_addr :: "string \<times> string \<Rightarrow> json" where
  "json_addr a = JDict [(''name'', JStr (fst a)), (''email'', JStr (snd a))]"

text \<open>The identifier of the \<open>Message-ID\<close> header, without blanks and angle brackets around it.\<close>

definition message_id_of :: "message \<Rightarrow> string" where
  "message_id_of msg = strip_chars {CHR ''<'', CHR ''>''} (strip (get_default (py_or (h_message_id msg) None) ''''))"

text \<open>The fields of the canonical document that \<open>build_markdown\<close> derives from the message.\<close>

record document =
  doc_subject :: string
  doc_from :: "(string \<times> string) list"
  doc_to :: "(string \<times> string) list"
  doc_cc :: "(string \<times> string) list"
  doc_message_id :: string
  doc_date_iso :: string
  doc_body :: string
  doc_labels :: "string list"
  doc_type :: string
  doc_gm_msgid :: "nat option"
  doc_gm_thrid :: "nat option"

definition normalise ::
  "mail_env \<Rightarrow> datetime \<Rightarrow> message \<Rightarrow> string list \<Rightarrow> nat option \<Rightarrow> nat option \<Rightarrow> datetime option
     \<Rightarrow> document" where
  "normalise env now msg gm_labels gm_msgid gm_thrid internaldate =
     (let canon_labels = canonicalize_labels gm_labels in
      \<lparr>doc_subject = decode_words env (get_default (py_or (h_subject msg) None) ''(no subject)''),
       doc_from = parse_addr_list env (decode_words env (get_default (py_or (h_from msg) None) '''')),
       doc_to = parse_addr_list env (decode_words env (get_default (py_or (h_to msg) None) '''')),
       doc_cc = parse_addr_list env (decode_words env (get_default (py_or (h_cc msg) None) '''')),
       doc_message_id = message_id_of msg,
       doc_date_iso = parsedate_to_iso env now (h_date msg) internaldate,
       doc_body = body_from_email env msg,
       doc_labels = canon_labels,
       doc_type = infer_doc_type canon_labels,
       doc_gm_msgid = gm_msgid,
       doc_gm_thrid = gm_thrid\<rparr>)"

text \<open>\<open>payload_for_checksum\<close>, in the order in which the dict is written.\<close>

definition payload_for_checksum :: "document \<Rightarrow> (string \<times> json) list" where
  "payload_for_checksum doc =
     [(''subject'', JStr (doc_subject doc)),
      (''from'', JList (map json_addr (doc_from doc))),
      (''to'', JList (map json_addr (doc_to doc))),
      (''cc'', JList (map json_addr (doc_cc doc))),
      (''date'', JStr (doc_date_iso doc)),
      (''labels'', JList (map JStr (doc_labels doc))),
      (''body'', JStr (take 200000 (doc_body doc))),
      (''doc_type'', JStr (doc_type doc)),
      (''gm_msgid'', json_opt_nat (doc_gm_msgid doc)),
      (''gm_thrid'', json_opt_nat (doc_gm_thrid doc)),
      (''message_id'', JStr (doc_message_id doc))]"

definition document_checksum :: "mail_env \<Rightarrow> document \<Rightarrow> string" where
  "document_checksum env doc = checksum_for (sha256_hexdigest env) (payload_for_checksum doc)"

text \<open>The default location: \<open>Emails/<year>/Q<quarter><yy>/<slug>-<short>.md\<close> below the vault root.\<close>

definition default_path :: "mail_env \<Rightarrow> document \<Rightarrow> fpath" where
  "default_path env doc =
     (let (y, m) = local_year_month env (doc_date_iso doc);
          quarter = (m - 1) div 3 + 1;
          quarter_str = ''Q'' @ string_of_nat quarter @ last_chars 2 (string_of_nat y);
          short = last_chars 6
            (case truthy_id (doc_gm_msgid doc) of
               Some g \<Rightarrow> string_of_nat g
             | None \<Rightarrow> md5_hex env (if doc_message_id doc \<noteq> [] then doc_message_id doc
                                     else doc_subject doc))
      in vault_root env @ ''/Emails/'' @ string_of_nat y @ ''/'' @ quarter_str @ ''/''
           @ slugify env (doc_subject doc) @ ''-'' @ short @ ''.md'')"

text \<open>The rendered note: the YAML header, one line each, and the body.\<close>

definition yaml_lines :: "mail_env \<Rightarrow> datetime \<Rightarrow> document \<Rightarrow> string list" where
  "yaml_lines env now doc =
     [''---'',
      ''type: '' @ doc_type doc,
      ''source: imap/gmail'',
      ''gmail:'',
      ''  x_gm_msgid: '' @ [CHR 0x22] @ id_or_empty (doc_gm_msgid doc) @ [CHR 0x22],
      ''  x_gm_thrid: '' @ [CHR 0x22] @ id_or_empty (doc_gm_thrid doc) @ [CHR 0x22],
      ''  message_id: '' @ [CHR 0x22] @ doc_message_id doc @ [CHR 0x22],
      ''subject: '' @ json_dumps False (JStr (doc_subject doc)),
      ''from: '' @ json_dumps False
         (case doc_from doc of [] \<Rightarrow> json_addr ('''', '''') | a # _ \<Rightarrow> json_addr a),
      ''to: '' @ json_dumps False (JList (map json_addr (doc_to doc))),
      ''cc: '' @ json_dumps False (JList (map json_addr (doc_cc doc))),
      ''date: '' @ doc_date_iso doc,
      ''labels: '' @ json_dumps False (JList (map JStr (doc_labels doc))),
      ''attachments: []'',
      ''checksum: '' @ [CHR 0x22] @ document_checksum env doc @ [CHR 0x22],
      ''ingested_at: '' @ isoformat env now,
      ''canonical_url: '' @ json_dumps False
         (JStr (''https://mail.google.com/mail/u/0/#inbox/'' @ id_or_empty (doc_gm_msgid doc))),
      ''---'',
      '''']"

definition render_markdown :: "mail_env \<Rightarrow> datetime \<Rightarrow> document \<Rightarrow> string" where
  "render_markdown env now doc =
     concat (map (\<lambda>line. if endswith line [CHR 0x0A] then line else line @ [CHR 0x0A])
               (yaml_lines env now doc))
     @ doc_body doc @ [CHR 0x0A]"

section \<open>Mail ingester: the checksum stored in a note\<close>

text \<open>
  \<open>re.search(r'^\s*checksum:\s*"(sha256:[a-f0-9]+)"\s*$', head, flags=re.M)\<close>. The search
  tries the starts of the lines from left to right. At a start it skips white space
  (which may run over line ends), reads the key, skips white space, reads the quoted
  digest, and wants nothing but blanks up to the end of that line.
\<close>

fun after_newlines :: "string \<Rightarrow> string list" where
  "after_newlines [] = []"
| "after_newlines (c # cs) = (if c = CHR 0x0A then cs # after_newlines cs else after_newlines cs)"

definition line_starts :: "string \<Rightarrow> string list" where
  "line_starts s = s # after_newlines s"

definition is_lower_hex :: "char \<Rightarrow> bool" where
  "is_lower_hex c = (let n = (of_char c :: nat) in (48 \<le> n \<and> n \<le> 57) \<or> (97 \<le> n \<and> n \<le> 102))"

definition blank_to_eol :: "string \<Rightarrow> bool" where
  "blank_to_eol s =
     (case dropWhile (\<lambda>c. is_space c \<and> c \<noteq> CHR 0x0A) s of [] \<Rightarrow> True | c # _ \<Rightarrow> c = CHR 0x0A)"

definition match_checksum_at :: "string \<Rightarrow> string option" where
  "match_checksum_at s =
     (let s1 = dropWhile is_space s in
      if \<not> startswith s1 ''checksum:'' then None
      else
        (let s2 = dropWhile is_space (drop 9 s1) in
         if \<not> startswith s2 (CHR 0x22 # ''sha256:'') then None
         else
           (let digits = takeWhile is_lower_hex (drop 8 s2);
                s3 = dropWhile is_lower_hex (drop 8 s2)
            in if digits \<noteq> [] \<and> startswith s3 [CHR 0x22] \<and> blank_to_eol (drop 1 s3)
               then Some (''sha256:'' @ digits) else None)))"

fun first_some :: "('a \<Rightarrow> 'b option) \<Rightarrow> 'a list \<Rightarrow> 'b option" where
  "first_some f [] = None"
| "first_some f (x # xs) = (case f x of Some y \<Rightarrow> Some y | None \<Rightarrow> first_some f xs)"

definition search_checksum :: "string \<Rightarrow> string option" where
  "search_checksum head = first_some match_checksum_at (line_starts head)"

text \<open>\<open>read_existing_checksum\<close>: nothing for a path that does not exist or cannot be read.\<close>

definition read_existing_checksum :: "(fpath \<rightharpoonup> fs_node) \<Rightarrow> fpath \<Rightarrow> string option" where
  "read_existing_checksum files md_path =
     (case files md_path of
        None \<Rightarrow> None
      | Some Unreadable \<Rightarrow> None
      | Some (File text) \<Rightarrow> search_checksum (take 4000 text))"

section \<open>Mail ingester: the deduplication index\<close>

text \<open>
  The index: two dicts from an identifier to the path of its note, keyed by
  \<open>str(X-GM-MSGID)\<close> and by the \<open>Message-ID\<close>.
\<close>

record dedupe_index =
  by_gm_msgid :: "string \<rightharpoonup> fpath"
  by_message_id :: "string \<rightharpoonup> fpath"

definition empty_index :: dedupe_index where
  "empty_index = \<lparr>by_gm_msgid = Map.empty, by_message_id = Map.empty\<rparr>"

text \<open>\<open>load_index\<close>: a file that is absent or cannot be parsed gives the empty index.\<close>

definition load_index :: "dedupe_index option \<Rightarrow> dedupe_index" where
  "load_index stored = (case stored of None \<Rightarrow> empty_index | Some idx \<Rightarrow> idx)"

definition extract_ids_from_file_head ::
  "mail_env \<Rightarrow> (fpath \<rightharpoonup> fs_node) \<Rightarrow> fpath \<Rightarrow> string option \<times> nat option" where
  "extract_ids_from_file_head env files md_path =
     (case files md_path of
        Some (File text) \<Rightarrow> head_ids env (take 4000 text)
      | _ \<Rightarrow> (None, None))"

text \<open>\<open>scan_recent_for_existing\<close>: a later file with the same identifier replaces an earlier one.\<close>

definition scan_recent_for_existing :: "mail_env \<Rightarrow> (fpath \<rightharpoonup> fs_node) \<Rightarrow> dedupe_index" where
  "scan_recent_for_existing env files =
     foldl (\<lambda>found md.
        (case extract_ids_from_file_head env files md of
           (mid, gmid) \<Rightarrow>
             (let found1 = (if truthy mid
                            then found\<lparr>by_message_id := (by_message_id found)(the mid \<mapsto> md)\<rparr>
                            else found)
              in case truthy_id gmid of
                   Some g \<Rightarrow> found1\<lparr>by_gm_msgid := (by_gm_msgid found1)(string_of_nat g \<mapsto> md)\<rparr>
                 | None \<Rightarrow> found1)))
       empty_index (recent_md_files env files)"

text \<open>\<open>index[...].update(seeded[...])\<close> for both dicts.\<close>

definition merge_index :: "dedupe_index \<Rightarrow> dedupe_index \<Rightarrow> dedupe_index" where
  "merge_index idx seeded =
     \<lparr>by_gm_msgid = by_gm_msgid idx ++ by_gm_msgid seeded,
      by_message_id = by_message_id idx ++ by_message_id seeded\<rparr>"

text \<open>
  The lookup of the loop: the dict of the primary identifier first, the dict of the
  secondary identifier when the primary one is absent or not in its dict.
\<close>

definition index_lookup :: "dedupe_index \<Rightarrow> nat option \<Rightarrow> string \<Rightarrow> fpath option" where
  "index_lookup idx gm_msgid message_id =
     (case (case gm_msgid of None \<Rightarrow> None | Some g \<Rightarrow> by_gm_msgid idx (string_of_nat g)) of
        Some p \<Rightarrow> Some p
      | None \<Rightarrow> (if message_id \<noteq> [] then by_message_id idx message_id else None))"

section \<open>Mail ingester: the loop over the fetched messages\<close>

record legacy_entry =
  le_path :: string
  le_checksum :: string
  le_type :: string

text \<open>The lines that the loop writes to the log.\<close>

datatype log_entry =
    Info_seeding
  | Info_matched nat
  | Warning_no_body nat
  | Warning_parse_error nat py_error
  | Debug_skip_labels nat
  | Info_duplicate fpath
  | Info_write bool bool fpath
  | Debug_markdown_only fpath
  | Warning_index_save_failed
  | Info_done nat

text \<open>
  \<open>Info_write update deduped p\<close> is the line \<open>Update\<close> or \<open>Write\<close>, with \<open>(deduped)\<close> when the
  path came from the index. The state of a run: the index in memory and its dirty flag,
  the files of the vault, the legacy state, the log and the counter.
\<close>

record run_state =
  index :: dedupe_index
  index_updated :: bool
  files :: "fpath \<rightharpoonup> fs_node"
  legacy_state :: "string \<rightharpoonup> legacy_entry"
  log :: "log_entry list"
  processed :: nat

text \<open>
  The search for an existing note: the index, and when it misses, a scan of the vault
  that is merged into the index, and the index again.
\<close>

definition resolve_existing ::
  "mail_env \<Rightarrow> run_state \<Rightarrow> nat option \<Rightarrow> string \<Rightarrow> fpath option \<times> run_state" where
  "resolve_existing env st gm_msgid message_id =
     (case index_lookup (index st) gm_msgid message_id of
        Some p \<Rightarrow> (Some p, st)
      | None \<Rightarrow>
          (let seeded = scan_recent_for_existing env (files st);
               st' = st\<lparr>index := merge_index (index st) seeded, index_updated := True\<rparr>
           in (index_lookup (index st') gm_msgid message_id, st')))"

text \<open>
  The comparison of the checksums and the write. A write that fails raises \<open>OSError\<close>;
  nothing in \<open>main\<close> catches it.
\<close>

definition write_document ::
  "mail_env \<Rightarrow> bool \<Rightarrow> run_state \<Rightarrow> bool \<Rightarrow> fpath \<Rightarrow> string \<Rightarrow> string \<Rightarrow> run_state \<times> py_error option" where
  "write_document env dry_run st deduped target_path md checksum =
     (if read_existing_checksum (files st) target_path = Some checksum
      then (st\<lparr>log := log st @ [Info_duplicate target_path]\<rparr>, None)
      else
        (let st1 = st\<lparr>log := log st @ [Info_write (files st target_path \<noteq> None) deduped target_path]\<rparr>
         in if dry_run then (st1, None)
            else if writable env target_path
              then (st1\<lparr>files := (files st1)(target_path \<mapsto> File md)\<rparr>, None)
              else (st1, Some OSError)))"

definition record_index :: "run_state \<Rightarrow> nat option \<Rightarrow> string \<Rightarrow> fpath \<Rightarrow> run_state" where
  "record_index st gm_msgid message_id target_path =
     (let st1 =
            (case gm_msgid of
               None \<Rightarrow> st
             | Some g \<Rightarrow>
                 if by_gm_msgid (index st) (string_of_nat g) \<noteq> Some target_path
                 then st\<lparr>index := (index st)\<lparr>by_gm_msgid :=
                           (by_gm_msgid (index st))(string_of_nat g \<mapsto> target_path)\<rparr>,
                         index_updated := True\<rparr>
                 else st)
      in if message_id \<noteq> [] \<and> by_message_id (index st1) message_id \<noteq> Some target_path
         then st1\<lparr>index := (index st1)\<lparr>by_message_id :=
                   (by_message_id (index st1))(message_id \<mapsto> target_path)\<rparr>,
                 index_updated := True\<rparr>
         else st1)"

text \<open>\<open>target_path.relative_to(vault_root)\<close> raises \<open>ValueError\<close> outside the vault.\<close>

definition relative_to :: "fpath \<Rightarrow> fpath \<Rightarrow> py_error + string" where
  "relative_to p root =
     (if p = root then Inr ''.''
      else if startswith p (root @ ''/'') then Inr (drop (length root + 1) p)
      else Inl ValueError)"

definition record_legacy ::
  "mail_env \<Rightarrow> run_state \<Rightarrow> string \<Rightarrow> fpath \<Rightarrow> string \<Rightarrow> string \<Rightarrow> run_state \<times> py_error option" where
  "record_legacy env st legacy_key target_path checksum dtype =
     (case relative_to target_path (vault_root env) of
        Inl e \<Rightarrow> (st, Some e)
      | Inr rel \<Rightarrow>
          (let entry = \<lparr>le_path = rel, le_checksum = checksum, le_type = dtype\<rparr>
           in if legacy_state st legacy_key = None
                 \<or> map_option le_checksum (legacy_state st legacy_key) \<noteq> Some checksum
                 \<or> map_option le_path (legacy_state st legacy_key) \<noteq> Some rel
              then (st\<lparr>legacy_state := (legacy_state st)(legacy_key \<mapsto> entry)\<rparr>, None)
              else (st, None)))"

text \<open>
  One pass of the loop of \<open>main\<close>. The second component is the exception that ends the
  run, if there is one; the state is then the one reached when it was raised. An exception
  of \<open>build_markdown\<close> comes after the search for an existing note and before the write.
\<close>

definition ingest_record ::
  "mail_env \<Rightarrow> bool \<Rightarrow> datetime \<Rightarrow> run_state \<Rightarrow> fetched \<Rightarrow> run_state \<times> py_error option" where
  "ingest_record env dry_run now st r =
     (if \<not> truthy (f_raw r) then (st\<lparr>log := log st @ [Warning_no_body (f_uid r)]\<rparr>, None)
      else
        (case message_from_bytes env (the (f_raw r)) of
           Inl e \<Rightarrow> (st\<lparr>log := log st @ [Warning_parse_error (f_uid r) e]\<rparr>, None)
         | Inr msg \<Rightarrow>
             (let gm_msgid = truthy_id (f_gm_msgid r);
                  gm_thrid = truthy_id (f_gm_thrid r);
                  canon_labels = canonicalize_labels (f_labels r)
              in if \<not> wants_processing canon_labels
                 then (st\<lparr>log := log st @ [Debug_skip_labels (f_uid r)]\<rparr>, None)
                 else
                   (let message_id = message_id_of msg;
                        (existing_path, st1) = resolve_existing env st gm_msgid message_id;
                        doc = normalise env now msg canon_labels gm_msgid gm_thrid (f_internaldate r);
                        checksum = document_checksum env doc;
                        target_path = (case existing_path of Some p \<Rightarrow> p | None \<Rightarrow> default_path env doc)
                    in case build_raises env msg (f_internaldate r) of
                         Some e \<Rightarrow> (st1, Some e)
                       | None \<Rightarrow>
                    (case write_document env dry_run st1 (existing_path \<noteq> None) target_path
                              (render_markdown env now doc) checksum of
                         (st2, Some e) \<Rightarrow> (st2, Some e)
                       | (st2, None) \<Rightarrow>
                           (case record_legacy env (record_index st2 gm_msgid message_id target_path)
                                   (case gm_msgid of Some g \<Rightarrow> string_of_nat g
                                                   | None \<Rightarrow> string_of_nat (f_uid r))
                                   target_path checksum (doc_type doc) of
                              (st3, Some e) \<Rightarrow> (st3, Some e)
                            | (st3, None) \<Rightarrow>
                                (st3\<lparr>log := log st3 @ [Debug_markdown_only target_path],
                                     processed := processed st3 + 1\<rparr>, None)))))))"

fun ingest_loop ::
  "mail_env \<Rightarrow> bool \<Rightarrow> datetime \<Rightarrow> run_state \<Rightarrow> fetched list \<Rightarrow> run_state \<times> py_error option" where
  "ingest_loop env dry_run now st [] = (st, None)"
| "ingest_loop env dry_run now st (r # rs) =
     (case ingest_record env dry_run now st r of
        (st', Some e) \<Rightarrow> (st', Some e)
      | (st', None) \<Rightarrow> ingest_loop env dry_run now st' rs)"

text \<open>
  What a run finds on disk and leaves there: the files of the vault, the index file and
  the legacy state file (\<open>None\<close>: absent or unreadable).
\<close>

record disk =
  disk_files :: "fpath \<rightharpoonup> fs_node"
  disk_index :: "dedupe_index option"
  disk_state :: "(string \<rightharpoonup> legacy_entry) option"

text \<open>
  \<open>main\<close> after the login, for the messages that the search matched, newest first, of
  which the loop takes those that \<open>--max\<close> leaves; \<open>now\<close> is the time of the run. \<open>initial_state\<close> is the state in which the
  loop starts: the index as loaded, seeded by a scan when it is empty, and the two lines
  logged before the loop. With no message the run ends at once. An exception of the loop
  ends the run before the index and the legacy state are saved.
\<close>

definition initial_state :: "mail_env \<Rightarrow> disk \<Rightarrow> nat \<Rightarrow> run_state" where
  "initial_state env dsk matched =
     (let idx0 = load_index (disk_index dsk);
          seed = (by_gm_msgid idx0 = Map.empty \<and> by_message_id idx0 = Map.empty)
      in \<lparr>index = (if seed then merge_index idx0 (scan_recent_for_existing env (disk_files dsk))
                   else idx0),
          index_updated = False,
          files = disk_files dsk,
          legacy_state = (case disk_state dsk of None \<Rightarrow> Map.empty | Some l \<Rightarrow> l),
          log = (if seed then [Info_seeding] else []) @ [Info_matched matched],
          processed = 0\<rparr>)"

text \<open>\<open>xs[:m]\<close>: a negative \<open>m\<close> counts from the end.\<close>

definition slice_to :: "int \<Rightarrow> 'a list \<Rightarrow> 'a list" where
  "slice_to m xs = (if 0 \<le> m then take (nat m) xs else take (length xs - nat (- m)) xs)"

definition main_run ::
  "mail_env \<Rightarrow> bool \<Rightarrow> int \<Rightarrow> datetime \<Rightarrow> disk \<Rightarrow> fetched list \<Rightarrow> disk \<times> log_entry list \<times> py_error option" where
  "main_run env dry_run max_n now dsk matched =
     (let st0 = initial_state env dsk (length matched)
      in if matched = [] then (dsk, log st0, None)
         else
           (case ingest_loop env dry_run now st0 (slice_to max_n matched) of
              (st, Some e) \<Rightarrow> (dsk\<lparr>disk_files := files st\<rparr>, log st, Some e)
            | (st, None) \<Rightarrow>
                (let save = (index_updated st \<and> \<not> dry_run) in
                 (\<lparr>disk_files = files st,
                   disk_index = (if save \<and> index_file_writable env then Some (index st)
                                 else disk_index dsk),
                   disk_state = (if \<not> dry_run \<and> state_file_writable env then Some (legacy_state st)
                                 else disk_state dsk)\<rparr>,
                  log st @ (if save \<and> \<not> index_file_writable env then [Warning_index_save_failed] else [])
                    @ [Info_done (processed st)],
                  None))))"

text \<open>
  Names for what one pass of the loop computes for a record whose message is \<open>msg\<close>: the
  record gets past the three \<open>continue\<close> statements and \<open>build_markdown\<close> returns for it,
  its canonical document, its
  checksum, the note found for it and the state after the search, and its target path.
\<close>

definition parsed_and_wanted :: "mail_env \<Rightarrow> fetched \<Rightarrow> message \<Rightarrow> bool" where
  "parsed_and_wanted env r msg =
     (truthy (f_raw r) \<and> message_from_bytes env (the (f_raw r)) = Inr msg
      \<and> wants_processing (canonicalize_labels (f_labels r))
      \<and> build_raises env msg (f_internaldate r) = None)"

definition document_of :: "mail_env \<Rightarrow> datetime \<Rightarrow> fetched \<Rightarrow> message \<Rightarrow> document" where
  "document_of env now r msg =
     normalise env now msg (canonicalize_labels (f_labels r)) (truthy_id (f_gm_msgid r))
       (truthy_id (f_gm_thrid r)) (f_internaldate r)"

definition checksum_of :: "mail_env \<Rightarrow> datetime \<Rightarrow> fetched \<Rightarrow> message \<Rightarrow> string" where
  "checksum_of env now r msg = document_checksum env (document_of env now r msg)"

definition existing_of :: "mail_env \<Rightarrow> run_state \<Rightarrow> fetched \<Rightarrow> message \<Rightarrow> fpath option" where
  "existing_of env st r msg = fst (resolve_existing env st (truthy_id (f_gm_msgid r)) (message_id_of msg))"

definition searched :: "mail_env \<Rightarrow> run_state \<Rightarrow> fetched \<Rightarrow> message \<Rightarrow> run_state" where
  "searched env st r msg = snd (resolve_existing env st (truthy_id (f_gm_msgid r)) (message_id_of msg))"

definition target_of :: "mail_env \<Rightarrow> datetime \<Rightarrow> run_state \<Rightarrow> fetched \<Rightarrow> message \<Rightarrow> fpath" where
  "target_of env now st r msg =
     (case existing_of env st r msg of
        Some p \<Rightarrow> p
      | None \<Rightarrow> default_path env (document_of env now r msg))"

definition legacy_key_of :: "fetched \<Rightarrow> string" where
  "legacy_key_of r =
     (case truthy_id (f_gm_msgid r) of Some g \<Rightarrow> string_of_nat g | None \<Rightarrow> string_of_nat (f_uid r))"

section \<open>Example surroundings for the mail ingester\<close>

text \<open>
  The values of the library functions on the inputs of the examples below. Three raw
  messages are known to the parser; the zone is UTC; the vault is \<open>/v\<close> and holds no note
  that a scan finds. The stand-in for SHA-256 writes every byte of its input as two
  lower-case hexadecimal digits, so that different inputs have different digests. The
  argument is the set of paths at which a write fails.
\<close>

definition hex_dump :: "string \<Rightarrow> string" where
  "hex_dump s = concat (map (\<lambda>c. [hex_digit (of_char c div 16), hex_digit (of_char c mod 16)]) s)"

definition example_message :: "string \<Rightarrow> string option \<Rightarrow> message" where
  "example_message mid date =
     \<lparr>h_subject = Some ''Hello'', h_from = Some ''a@example.com'', h_to = Some ''b@example.com'',
      h_cc = None, h_message_id = Some mid, h_date = date, m_content = ''Hi there''\<rparr>"

definition example_mail_env :: "fpath list \<Rightarrow> mail_env" where
  "example_mail_env read_only =
     \<lparr>message_from_bytes = (\<lambda>raw.
         if raw = ''raw-1'' then Inr (example_message ''<m1@example.com>'' (Some ''Thu, 02 Jan 2025 12:00:00 +0000''))
         else if raw = ''raw-2'' then Inr (example_message ''<m2@example.com>'' (Some ''Thu, 02 Jan 2025 12:00:00 +0000''))
         else if raw = ''raw-3'' then Inr (example_message ''<m3@example.com>'' None)
         else Inl ValueError),
      decode_header_words = (\<lambda>s. s),
      getaddresses = (\<lambda>s. [('''', s)]),
      body_from_email = m_content,
      parsedate_to_datetime = (\<lambda>s.
         if s = ''Thu, 02 Jan 2025 12:00:00 +0000'' then Inr (Aware 1735819200000000 0)
         else Inl ValueError),
      isoformat = (\<lambda>d.
         if d = Aware 1735819200000000 0 then ''2025-01-02T12:00:00+00:00''
         else if d = Aware 1735905600000000 0 then ''2025-01-03T12:00:00+00:00''
         else if d = Aware 1735992000000000 0 then ''2025-01-04T12:00:00+00:00''
         else ''1970-01-01T00:00:00+00:00''),
      astimezone_local = (\<lambda>d. d),
      local_year_month = (\<lambda>s. (2025, 1)),
      slugify = (\<lambda>s. if s = ''Hello'' then ''hello'' else ''email''),
      md5_hex = (\<lambda>s. ''d41d8cd98f00b204e9800998ecf8427e''),
      sha256_hexdigest = hex_dump,
      recent_md_files = (\<lambda>fs. []),
      head_ids = (\<lambda>s. (None, None)),
      writable = (\<lambda>p. p \<notin> set read_only),
      vault_root = ''/v'',
      index_file_writable = True,
      state_file_writable = True,
      build_raises = (\<lambda>msg internaldate. None)\<rparr>"

definition example_fetched :: "nat \<Rightarrow> string \<Rightarrow> nat option \<Rightarrow> fetched" where
  "example_fetched uid raw gm =
     \<lparr>f_uid = uid, f_raw = Some raw, f_labels = [''AI/Ingest''], f_gm_msgid = gm,
      f_gm_thrid = None, f_internaldate = None\<rparr>"


definition empty_disk :: disk where
  "empty_disk = \<lparr>disk_files = Map.empty, disk_index = None, disk_state = None\<rparr>"

text \<open>Three instants of the examples: noon of 2025-01-02, 2025-01-03 and 2025-01-04, UTC.\<close>

definition noon_jan_2 :: datetime where
  "noon_jan_2 = Aware 1735819200000000 0"
definition noon_jan_3 :: datetime where
  "noon_jan_3 = Aware 1735905600000000 0"
definition noon_jan_4 :: datetime where
  "noon_jan_4 = Aware 1735992000000000 0"

section \<open>Properties of the label canonicalisation\<close>

lemma first_seen_filter:
  "first_seen (filter P xs) = filter P (first_seen xs)"
proof (induction xs rule: first_seen.induct)
  case 1
  show ?case by simp
next
  case (2 x xs)
  let ?nx = "\<lambda>y. y \<noteq> x"
  have ih: "first_seen (filter P (filter ?nx xs)) = filter P (first_seen (filter ?nx xs))"
    by (rule 2)
  have comm: "filter ?nx (filter P xs) = filter P (filter ?nx xs)"
    by (induction xs) auto
  show ?case
  proof (cases "P x")
    case True
    have "first_seen (filter P (x # xs)) = x # first_seen (filter ?nx (filter P xs))"
      using True by simp
    also have "\<dots> = x # filter P (first_seen (filter ?nx xs))"
      by (simp only: comm ih)
    also have "\<dots> = filter P (first_seen (x # xs))"
      using True by simp
    finally show ?thesis .
  next
    case False
    have eq: "filter P xs = filter P (filter ?nx xs)"
      using False by (induction xs) auto
    have "first_seen (filter P (x # xs)) = first_seen (filter P xs)"
      using False by simp
    also have "\<dots> = filter P (first_seen (filter ?nx xs))"
      by (subst eq) (rule ih)
    also have "\<dots> = filter P (first_seen (x # xs))"
      using False by simp
    finally show ?thesis .
  qed
qed

lemma set_first_seen: "set (first_seen xs) = set xs"
  by (induction xs rule: first_seen.induct) auto

lemma distinct_first_seen: "distinct (first_seen xs)"
  by (induction xs rule: first_seen.induct) (auto simp: set_first_seen)

lemma filter_notin_drop:
  "x \<in> A \<Longrightarrow> filter (\<lambda>l. l \<notin> A) (filter (\<lambda>y. y \<noteq> x) zs) = filter (\<lambda>l. l \<notin> A) zs"
  by (induction zs) auto

lemma filter_notin_snoc:
  "filter (\<lambda>l. l \<notin> set (out @ [x])) zs = filter (\<lambda>l. l \<notin> set out) (filter (\<lambda>y. y \<noteq> x) zs)"
  by (induction zs) auto

lemma canonicalize_loop_first_seen:
  "distinct out \<Longrightarrow>
   canonicalize_loop out labels =
     out @ filter (\<lambda>l. l \<notin> set out) (first_seen (map alias_of labels))"
proof (induction labels arbitrary: out)
  case Nil
  show ?case by simp
next
  case (Cons lbl labels)
  let ?l = "alias_of lbl"
  let ?rest = "first_seen (map alias_of labels)"
  have fs: "first_seen (map alias_of (lbl # labels)) = ?l # filter (\<lambda>y. y \<noteq> ?l) ?rest"
    by (simp add: first_seen_filter)
  show ?case
  proof (cases "?l \<in> set out")
    case True
    have "filter (\<lambda>l. l \<notin> set out) (filter (\<lambda>y. y \<noteq> ?l) ?rest)
          = filter (\<lambda>l. l \<notin> set out) ?rest"
      using True by (rule filter_notin_drop)
    then have "out @ filter (\<lambda>l. l \<notin> set out) (first_seen (map alias_of (lbl # labels)))
          = out @ filter (\<lambda>l. l \<notin> set out) ?rest"
      using True by (simp only: fs filter.simps if_False simp_thms)
    moreover have "canonicalize_loop out (lbl # labels) = canonicalize_loop out labels"
      using True by (simp add: Let_def)
    ultimately show ?thesis
      using Cons.IH [OF Cons.prems] by simp
  next
    case False
    have d: "distinct (out @ [?l])" using False Cons.prems by simp
    have "filter (\<lambda>l. l \<notin> set (out @ [?l])) ?rest
          = filter (\<lambda>l. l \<notin> set out) (filter (\<lambda>y. y \<noteq> ?l) ?rest)"
      by (rule filter_notin_snoc)
    then have "(out @ [?l]) @ filter (\<lambda>l. l \<notin> set (out @ [?l])) ?rest
          = out @ filter (\<lambda>l. l \<notin> set out) (first_seen (map alias_of (lbl # labels)))"
      using False by (simp only: fs filter.simps if_True simp_thms append_assoc append.simps)
    moreover have "canonicalize_loop out (lbl # labels) = canonicalize_loop (out @ [?l]) labels"
      using False by (simp add: Let_def)
    ultimately show ?thesis
      using Cons.IH [OF d] by simp
  qed
qed

lemma canonicalize_labels_first_seen:
  "canonicalize_labels labels = first_seen (map alias_of labels)"
  by (simp add: canonicalize_labels_def canonicalize_loop_first_seen)

lemma count_list_distinct: "distinct xs \<Longrightarrow> x \<in> set xs \<Longrightarrow> count_list xs x = 1"
  by (induction xs) auto

lemma strip_Save: "strip ''Save'' = ''Save''"
  by (simp add: strip_def lstrip_def rstrip_def is_space_def)

lemma strip_Slack: "strip ''Slack-Thread'' = ''Slack-Thread''"
  by (simp add: strip_def lstrip_def rstrip_def is_space_def)

lemma alias_of_canonical_name: "alias_of lbl = canonical_name lbl"
  by (simp add: alias_of_def canonical_name_def LABEL_ALIASES_def Let_def)

lemma canonical_name_fixed:
  "canonical_name ''Save'' = ''Save''" "canonical_name ''Slack-Thread'' = ''Slack-Thread''"
  by (simp_all add: canonical_name_def strip_Save strip_Slack)

lemma strip_legacy:
  "strip ''AI/Ingest'' = ''AI/Ingest''" "strip ''ai/ingest'' = ''ai/ingest''"
  "strip ''To-Embed'' = ''To-Embed''" "strip ''Slack Thread'' = ''Slack Thread''"
  "strip ''AI/Slack-Thread'' = ''AI/Slack-Thread''"
  by (simp_all add: strip_def lstrip_def rstrip_def is_space_def)

lemma canonical_name_legacy:
  "canonical_name ''AI/Ingest'' = ''Save''" "canonical_name ''ai/ingest'' = ''Save''"
  "canonical_name ''To-Embed'' = ''Save''" "canonical_name ''Slack Thread'' = ''Slack-Thread''"
  "canonical_name ''AI/Slack-Thread'' = ''Slack-Thread''"
  by (simp_all add: canonical_name_def strip_legacy)

lemma canonical_name_not_legacy:
  "canonical_name l \<notin> {''AI/Ingest'', ''ai/ingest'', ''To-Embed'', ''Slack Thread'', ''AI/Slack-Thread''}"
  by (simp add: canonical_name_def Let_def)

text \<open>
  Claim C9. \<open>canonicalize_labels\<close> maps every raw label through the alias table and keeps
  each resulting name at its first occurrence only, in the order of the first occurrences.
  The result has no duplicates. A legacy name among the input labels puts its canonical
  name into the result, exactly once, whether or not the canonical name is itself among the
  input labels, and the legacy name is not in the result.
\<close>

theorem canonicalize_labels_dedup:
  "canonicalize_labels labels = first_seen (map canonical_name labels)
   \<and> distinct (canonicalize_labels labels)
   \<and> ((legacy, c) \<in> {(''AI/Ingest'', ''Save''), (''ai/ingest'', ''Save''), (''To-Embed'', ''Save''),
                       (''Slack Thread'', ''Slack-Thread''), (''AI/Slack-Thread'', ''Slack-Thread'')}
        \<and> legacy \<in> set labels
        \<longrightarrow> c \<in> set (canonicalize_labels labels)
          \<and> count_list (canonicalize_labels labels) c = 1
          \<and> legacy \<notin> set (canonicalize_labels labels))"
proof (intro conjI impI)
  have al: "map alias_of labels = map canonical_name labels"
    by (simp add: alias_of_canonical_name)
  show eq: "canonicalize_labels labels = first_seen (map canonical_name labels)"
    by (simp only: canonicalize_labels_first_seen al)
  show d: "distinct (canonicalize_labels labels)"
    by (simp add: eq distinct_first_seen)
  assume h: "(legacy, c) \<in> {(''AI/Ingest'', ''Save''), (''ai/ingest'', ''Save''), (''To-Embed'', ''Save''),
                       (''Slack Thread'', ''Slack-Thread''), (''AI/Slack-Thread'', ''Slack-Thread'')}
        \<and> legacy \<in> set labels"
  then have "canonical_name legacy = c"
    using canonical_name_legacy by auto
  then show c: "c \<in> set (canonicalize_labels labels)"
    using h by (force simp: eq set_first_seen)
  show "count_list (canonicalize_labels labels) c = 1"
    using d c by (rule count_list_distinct)
  have "legacy \<in> {''AI/Ingest'', ''ai/ingest'', ''To-Embed'', ''Slack Thread'', ''AI/Slack-Thread''}"
    using h by auto
  then show "legacy \<notin> set (canonicalize_labels labels)"
    using canonical_name_not_legacy by (auto simp: eq set_first_seen)
qed

theorem canonicalize_labels_dedup_witness:
  "(''AI/Ingest'', ''Save'') \<in> {(''AI/Ingest'', ''Save''), (''ai/ingest'', ''Save''), (''To-Embed'', ''Save''),
                       (''Slack Thread'', ''Slack-Thread''), (''AI/Slack-Thread'', ''Slack-Thread'')}
   \<and> ''AI/Ingest'' \<in> set [''Slack Thread'', ''AI/Ingest'', '' Save '', ''Other'', ''To-Embed'']
   \<and> canonicalize_labels [''Slack Thread'', ''AI/Ingest'', '' Save '', ''Other'', ''To-Embed'']
       = [''Slack-Thread'', ''Save'', ''Other'']
   \<and> count_list (canonicalize_labels [''Slack Thread'', ''AI/Ingest'', '' Save '', ''Other'', ''To-Embed''])
       ''Save'' = 1
   \<and> ''AI/Ingest'' \<notin> set (canonicalize_labels [''Slack Thread'', ''AI/Ingest'', '' Save '', ''Other'', ''To-Embed''])"
proof -
  let ?labels = "[''Slack Thread'', ''AI/Ingest'', '' Save '', ''Other'', ''To-Embed'']"
  have h: "(''AI/Ingest'', ''Save'') \<in> {(''AI/Ingest'', ''Save''), (''ai/ingest'', ''Save''), (''To-Embed'', ''Save''),
                       (''Slack Thread'', ''Slack-Thread''), (''AI/Slack-Thread'', ''Slack-Thread'')}
     \<and> ''AI/Ingest'' \<in> set ?labels"
    by simp
  have v: "first_seen (map canonical_name ?labels) = [''Slack-Thread'', ''Save'', ''Other'']"
    by code_simp
  from canonicalize_labels_dedup [of ?labels "''AI/Ingest''" "''Save''"] h v
  show ?thesis by metis
qed
section \<open>Properties of the checksum\<close>

lemma sort_key_fst_perm:
  assumes d: "distinct (map fst xs)" and p: "mset xs = mset ys"
  shows "sort_key fst xs = sort_key fst ys"
proof (rule map_sorted_distinct_set_unique [where f = fst])
  have s: "set xs = set ys" using p by (rule mset_eq_setD)
  have dy: "distinct (map fst ys)"
  proof -
    have "mset (map fst ys) = mset (map fst xs)" using p by (metis mset_map)
    then show ?thesis using d by (rule mset_eq_imp_distinct_iff [THEN iffD2])
  qed
  show "inj_on fst (set (sort_key fst xs) \<union> set (sort_key fst ys))"
    using d s by (simp add: distinct_map)
  show "sorted (map fst (sort_key fst xs))" by simp
  show "sorted (map fst (sort_key fst ys))" by simp
  show "distinct (map fst (sort_key fst xs))"
    using d by (metis distinct_map distinct_sort set_sort)
  show "distinct (map fst (sort_key fst ys))"
    using dy by (metis distinct_map distinct_sort set_sort)
  show "set (sort_key fst xs) = set (sort_key fst ys)" using s by simp
qed

text \<open>
  Claim C3. The checksum does not depend on the order in which the fields of the payload
  are assembled: two payloads with the same fields (a dict has each key once), inserted
  in any two orders, have the same checksum.
\<close>

theorem checksum_for_field_order:
  assumes "distinct (map fst payload)" and "mset payload' = mset payload"
  shows "checksum_for digest payload' = checksum_for digest payload"
proof -
  let ?enc = "\<lambda>(k, v). (k, json_dumps True v)"
  have d: "distinct (map fst (map ?enc payload))"
    using assms(1) by (simp add: case_prod_unfold comp_def)
  have "mset (map ?enc payload) = mset (map ?enc payload')"
    using assms(2) by (metis mset_map)
  then have "sort_key fst (map ?enc payload) = sort_key fst (map ?enc payload')"
    using d by (rule sort_key_fst_perm [rotated])
  then show ?thesis by (simp add: checksum_for_def)
qed

theorem checksum_for_field_order_witness:
  "distinct (map fst [(''subject'', JStr ''Hi''), (''gm_msgid'', JInt 42), (''cc'', JList [])])
   \<and> mset [(''gm_msgid'', JInt 42), (''cc'', JList []), (''subject'', JStr ''Hi'')]
       = mset [(''subject'', JStr ''Hi''), (''gm_msgid'', JInt 42), (''cc'', JList [])]
   \<and> checksum_for id [(''gm_msgid'', JInt 42), (''cc'', JList []), (''subject'', JStr ''Hi'')]
       = checksum_for id [(''subject'', JStr ''Hi''), (''gm_msgid'', JInt 42), (''cc'', JList [])]"
proof -
  have h1: "distinct (map fst [(''subject'', JStr ''Hi''), (''gm_msgid'', JInt 42), (''cc'', JList [])])"
    by simp
  have h2: "mset [(''gm_msgid'', JInt 42), (''cc'', JList []), (''subject'', JStr ''Hi'')]
       = mset [(''subject'', JStr ''Hi''), (''gm_msgid'', JInt 42), (''cc'', JList [])]"
    by (simp add: add.commute)
  from checksum_for_field_order [OF h1 h2, of id] h1 h2 show ?thesis by blast
qed

section \<open>Properties of the video identifier\<close>

lemma split_on_not_Nil: "split_on c s \<noteq> []"
  by (induction s) (auto split: list.splits)

lemma split_on_embed:
  assumes "startswith p ''/embed/''"
  shows "\<exists>v. index_at (split_on CHR ''/'' p) 2 = Inr v"
proof -
  from assms have "take (length ''/embed/'') p = ''/embed/''"
    unfolding startswith_def .
  then have "p = ''/embed/'' @ drop (length ''/embed/'') p"
    by (metis append_take_drop_id)
  then obtain r where p: "p = ''/embed/'' @ r" ..
  obtain q qs where "split_on CHR ''/'' r = q # qs"
    using split_on_not_Nil [of "CHR ''/''" r] by (cases "split_on CHR ''/'' r") auto
  then have "split_on CHR ''/'' p = [] # ''embed'' # q # qs"
    by (simp add: p)
  then show ?thesis by (simp add: index_at_def)
qed

text \<open>
  Claim C10, as the code has it. On every URL that \<open>urlparse\<close> accepts, \<open>extract_video_id\<close>
  returns without raising, whatever \<open>parse_qs\<close> gives; it returns an identifier exactly
  for the three supported shapes (host \<open>www.youtube.com\<close> or \<open>youtube.com\<close> with path
  \<open>/watch\<close> and a \<open>v\<close> parameter, or with a path that starts with \<open>/embed/\<close>; host
  \<open>youtu.be\<close>), and \<open>None\<close> for every other host or path, which \<open>main\<close> reports as an invalid
  URL with exit status 1.
\<close>

theorem extract_video_id_shapes:
  assumes "up url = Inr p"
  shows "\<exists>r. extract_video_id up pq url = Inr r
     \<and> (\<forall>v. r = Some v \<longleftrightarrow>
          ((hostname p = Some ''www.youtube.com'' \<or> hostname p = Some ''youtube.com'')
             \<and> path p = ''/watch'' \<and> (\<exists>vs. pq (query p) ''v'' = Some (v, vs)))
          \<or> ((hostname p = Some ''www.youtube.com'' \<or> hostname p = Some ''youtube.com'')
             \<and> startswith (path p) ''/embed/''
             \<and> index_at (split_on CHR ''/'' (path p)) 2 = Inr v)
          \<or> (hostname p = Some ''youtu.be'' \<and> v = drop 1 (path p)))
     \<and> (r = None \<longrightarrow> main_video_id up pq url = Invalid_URL_exit_1)"
proof -
  have nw: "\<not> startswith ''/watch'' ''/embed/''" by (simp add: startswith_def)
  consider (watch) "hostname p = Some ''www.youtube.com'' \<or> hostname p = Some ''youtube.com''"
      "path p = ''/watch''"
    | (embed) "hostname p = Some ''www.youtube.com'' \<or> hostname p = Some ''youtube.com''"
      "path p \<noteq> ''/watch''" "startswith (path p) ''/embed/''"
    | (tube) "hostname p = Some ''www.youtube.com'' \<or> hostname p = Some ''youtube.com''"
      "path p \<noteq> ''/watch''" "\<not> startswith (path p) ''/embed/''"
    | (short) "hostname p = Some ''youtu.be''"
    | (other) "hostname p \<noteq> Some ''www.youtube.com''" "hostname p \<noteq> Some ''youtube.com''"
      "hostname p \<noteq> Some ''youtu.be''"
    by blast
  then show ?thesis
  proof cases
    case watch
    show ?thesis
    proof (cases "pq (query p) ''v''")
      case None
      then show ?thesis
        using assms watch nw by (auto simp: extract_video_id_def main_video_id_def)
    next
      case (Some a)
      then show ?thesis
        using assms watch nw by (cases a) (auto simp: extract_video_id_def main_video_id_def)
    qed
  next
    case embed
    from split_on_embed [OF embed(3)] obtain v where
      "index_at (split_on CHR ''/'' (path p)) 2 = Inr v" ..
    then show ?thesis
      using assms embed by (auto simp: extract_video_id_def main_video_id_def)
  next
    case tube
    then show ?thesis
      using assms by (auto simp: extract_video_id_def main_video_id_def)
  next
    case short
    then show ?thesis
      using assms by (auto simp: extract_video_id_def main_video_id_def)
  next
    case other
    then show ?thesis
      using assms by (auto simp: extract_video_id_def main_video_id_def)
  qed
qed

theorem extract_video_id_shapes_witness:
  "urlparse ''https://www.youtube.com/watch?t=10&v=dQw4w9WgXcQ''
     = Inr \<lparr>hostname = Some ''www.youtube.com'', path = ''/watch'', query = ''t=10&v=dQw4w9WgXcQ''\<rparr>
   \<and> extract_video_id urlparse parse_qs ''https://www.youtube.com/watch?t=10&v=dQw4w9WgXcQ''
     = Inr (Some ''dQw4w9WgXcQ'')"
proof -
  have h: "urlparse ''https://www.youtube.com/watch?t=10&v=dQw4w9WgXcQ''
     = Inr \<lparr>hostname = Some ''www.youtube.com'', path = ''/watch'', query = ''t=10&v=dQw4w9WgXcQ''\<rparr>"
    by code_simp
  have q: "parse_qs ''t=10&v=dQw4w9WgXcQ'' ''v'' = Some (''dQw4w9WgXcQ'', [])"
    by code_simp
  from extract_video_id_shapes [of urlparse _ _ parse_qs, OF h] obtain r where
    r: "extract_video_id urlparse parse_qs ''https://www.youtube.com/watch?t=10&v=dQw4w9WgXcQ'' = Inr r"
    and c: "\<forall>v. r = Some v \<longleftrightarrow>
          ((Some ''www.youtube.com'' = Some ''www.youtube.com'' \<or> Some ''www.youtube.com'' = Some ''youtube.com'')
             \<and> ''/watch'' = ''/watch'' \<and> (\<exists>vs. parse_qs ''t=10&v=dQw4w9WgXcQ'' ''v'' = Some (v, vs)))
          \<or> ((Some ''www.youtube.com'' = Some ''www.youtube.com'' \<or> Some ''www.youtube.com'' = Some ''youtube.com'')
             \<and> startswith ''/watch'' ''/embed/''
             \<and> index_at (split_on CHR ''/'' ''/watch'') 2 = Inr v)
          \<or> (Some ''www.youtube.com'' = Some ''youtu.be'' \<and> v = drop 1 ''/watch'')"
    by (auto simp del: split_on.simps)
  from c q have "r = Some ''dQw4w9WgXcQ''" by blast
  with r h show ?thesis by simp
qed

text \<open>
  The claim as stated fails where \<open>urlparse\<close> itself raises: an authority with an opening
  bracket and no closing one is rejected with \<open>ValueError\<close>, which \<open>extract_video_id\<close> does
  not catch and \<open>main\<close> does not report as an invalid URL.
\<close>

theorem extract_video_id_raises:
  "extract_video_id urlparse parse_qs ''http://['' = Inl ValueError
   \<and> main_video_id urlparse parse_qs ''http://['' = Uncaught ValueError"
  by code_simp

section \<open>Properties of the calendar filter\<close>

lemma declined_loop_find:
  "declined_loop as u =
     (case find (\<lambda>a. lower (get_default (att_email a) '''') = lower u) as of
        None \<Rightarrow> False
      | Some a \<Rightarrow> att_responseStatus a = Some ''declined'')"
  by (induction as) auto

lemma find_invited:
  "find (\<lambda>a. lower (get_default (att_email a) '''') = lower u) (ev_attendees ev) = Some a
     \<Longrightarrow> is_user_invited ev u"
  by (auto simp: is_user_invited_def list_ex_iff find_Some_iff)

lemma filter_events_append:
  "filter_events lib now u (pre @ post) =
     (case filter_events lib now u pre of
        Inl e \<Rightarrow> Inl e
      | Inr fs \<Rightarrow> (case filter_events lib now u post of Inl e \<Rightarrow> Inl e | Inr gs \<Rightarrow> Inr (fs @ gs)))"
  by (induction pre) (auto split: sum.splits)

text \<open>
  What the filter does with an event that the user has declined. Let the entry of the
  acting user in the attendee list (the first one with the user's address, compared without
  case) have the response status \<open>declined\<close>, and let \<open>d\<close> be the start that the \<open>try\<close> block
  of the loop computes. If \<open>d\<close> is after now, the event is left out of the output of every
  batch it is in. If \<open>d\<close> is not after now and the event is not of type \<open>workingLocation\<close>,
  the event goes to formatting, and the formatted event is in the output.
\<close>

lemma filter_event_declined:
  assumes user: "find (\<lambda>a. lower (get_default (att_email a) '''') = lower u) (ev_attendees ev) = Some a"
    and declined: "att_responseStatus a = Some ''declined''"
    and start: "py_or (ev_start_dateTime ev) (ev_start_date ev) = Some s" "s \<noteq> []"
    and parsed: "event_start lib s = Inr d"
  shows "(instant d > instant now \<longrightarrow>
            filter_event lib now u ev = Inr None
            \<and> filter_events lib now u (pre @ ev # post) = filter_events lib now u (pre @ post))
       \<and> (\<not> instant d > instant now \<and> ev_eventType ev \<noteq> Some ''workingLocation'' \<longrightarrow>
            filter_event lib now u ev = map_sum id Some (format_event lib ev)
            \<and> (\<forall>f. format_event lib ev = Inr f \<longrightarrow> filter_events lib now u [ev] = Inr [f]))"
proof -
  have inv: "is_user_invited ev u" using user by (rule find_invited)
  have dec: "has_user_declined ev u"
    using user declined by (simp add: has_user_declined_def declined_loop_find)
  have tr: "truthy (py_or (ev_start_dateTime ev) (ev_start_date ev))"
    using start by (simp add: truthy_def)
  have future: "filter_event lib now u ev = Inr None" if "instant d > instant now"
    using that inv dec tr start parsed by (simp add: filter_event_def)
  have past: "filter_event lib now u ev = map_sum id Some (format_event lib ev)"
    if "\<not> instant d > instant now" "ev_eventType ev \<noteq> Some ''workingLocation''"
    using that inv dec tr start parsed by (simp add: filter_event_def)
  have batch: "filter_events lib now u (pre @ ev # post) = filter_events lib now u (pre @ post)"
    if "instant d > instant now"
    using future [OF that] by (simp add: filter_events_append split: sum.splits)
  have single: "filter_events lib now u [ev] = Inr [f]"
    if "\<not> instant d > instant now" "ev_eventType ev \<noteq> Some ''workingLocation''"
      "format_event lib ev = Inr f" for f
    using past [OF that(1,2)] that(3) by simp
  show ?thesis using future past batch single by blast
qed

text \<open>
  The start that the \<open>try\<close> block computes from a date is midnight of that date in UTC,
  whatever the local zone is.
\<close>

lemma event_start_date_as_utc:
  assumes "CHR ''T'' \<notin> set s" and "strptime_ymd lib s = Inr (Naive w)"
    and "local_utcoffset lib w = Inr off"
  shows "event_start lib s = Inr (Aware w off)"
  using assms by (simp add: event_start_def astimezone_def replace_utc_def wall_clock_def instant_def)

text \<open>
  Claim C8. A declined event with a start in the future is left out, and the same event
  with a start in the past is kept. The code does not do this for an all-day event: at
  17:00 of 1 January 2025 in a zone eight hours behind UTC, the all-day event of 2 January
  that the user has declined starts after now on the local clock, and the filter, which
  reads the date as midnight UTC (an hour before now), puts the event into the output.
\<close>

theorem declined_all_day_tomorrow_included:
  "has_user_declined all_day_tomorrow ''me@example.com''
   \<and> strptime_ymd pacific_time_lib ''2025-01-02'' = Inr (Naive 1735776000000000)
   \<and> wall_clock pacific_now < 1735776000000000
   \<and> event_start pacific_time_lib ''2025-01-02'' = Inr (Aware 1735776000000000 (- 28800000000))
   \<and> filter_events pacific_time_lib pacific_now ''me@example.com'' [all_day_tomorrow] =
       Inr [\<lparr>fe_date = ''2025-01-02'', fe_start_time = ''00:00:00'', fe_end_time = ''23:59:59'',
             fe_title = ''Offsite'', fe_accepted_attendees = [''boss@example.com''], fe_event_id = ''e2'',
             fe_location = '''', fe_description = '''', fe_organizer = ''boss@example.com'',
             fe_status = ''confirmed'', fe_html_link = ''''\<rparr>]"
  by code_simp
section \<open>Properties of the ingestion loop\<close>

lemma files_searched [simp]: "files (searched env st r msg) = files st"
  by (simp add: searched_def resolve_existing_def Let_def split: option.splits)

lemma log_searched [simp]: "log (searched env st r msg) = log st"
  by (simp add: searched_def resolve_existing_def Let_def split: option.splits)

lemma legacy_searched [simp]: "legacy_state (searched env st r msg) = legacy_state st"
  by (simp add: searched_def resolve_existing_def Let_def split: option.splits)

lemma processed_searched [simp]: "processed (searched env st r msg) = processed st"
  by (simp add: searched_def resolve_existing_def Let_def split: option.splits)

text \<open>One pass of the loop for a record that gets past the three \<open>continue\<close> statements.\<close>

lemma ingest_record_wanted:
  assumes "parsed_and_wanted env r msg"
  shows "ingest_record env dry_run now st r =
     (case write_document env dry_run (searched env st r msg) (existing_of env st r msg \<noteq> None)
             (target_of env now st r msg) (render_markdown env now (document_of env now r msg))
             (checksum_of env now r msg) of
        (st2, Some e) \<Rightarrow> (st2, Some e)
      | (st2, None) \<Rightarrow>
          (case record_legacy env
                  (record_index st2 (truthy_id (f_gm_msgid r)) (message_id_of msg) (target_of env now st r msg))
                  (legacy_key_of r) (target_of env now st r msg) (checksum_of env now r msg)
                  (doc_type (document_of env now r msg)) of
             (st3, Some e) \<Rightarrow> (st3, Some e)
           | (st3, None) \<Rightarrow>
               (st3\<lparr>log := log st3 @ [Debug_markdown_only (target_of env now st r msg)],
                    processed := processed st3 + 1\<rparr>, None)))"
proof -
  obtain ex st1 where res:
    "resolve_existing env st (truthy_id (f_gm_msgid r)) (message_id_of msg) = (ex, st1)"
    by (cases "resolve_existing env st (truthy_id (f_gm_msgid r)) (message_id_of msg)")
  have a: "truthy (f_raw r) = True" "message_from_bytes env (the (f_raw r)) = Inr msg"
    "wants_processing (canonicalize_labels (f_labels r)) = True"
    "build_raises env msg (f_internaldate r) = None"
    using assms by (simp_all add: parsed_and_wanted_def)
  show ?thesis
    unfolding ingest_record_def target_of_def checksum_of_def document_of_def legacy_key_of_def
      existing_of_def searched_def Let_def res a fst_conv snd_conv
    by (simp only: res a if_False if_True not_True_eq_False sum.case prod.case option.case
        fst_conv snd_conv)
qed

lemma files_record_index [simp]: "files (record_index st g m t) = files st"
  by (simp add: record_index_def Let_def split: option.splits)

lemma log_record_index [simp]: "log (record_index st g m t) = log st"
  by (simp add: record_index_def Let_def split: option.splits)

lemma legacy_record_index [simp]: "legacy_state (record_index st g m t) = legacy_state st"
  by (simp add: record_index_def Let_def split: option.splits)

lemma processed_record_index [simp]: "processed (record_index st g m t) = processed st"
  by (simp add: record_index_def Let_def split: option.splits)


lemma write_document_same:
  "read_existing_checksum (files st) t = Some c \<Longrightarrow>
     write_document env dry_run st dd t md c = (st\<lparr>log := log st @ [Info_duplicate t]\<rparr>, None)"
  by (simp add: write_document_def)

lemma write_document_dry:
  "read_existing_checksum (files st) t \<noteq> Some c \<Longrightarrow>
     write_document env True st dd t md c =
       (st\<lparr>log := log st @ [Info_write (files st t \<noteq> None) dd t]\<rparr>, None)"
  by (simp add: write_document_def Let_def)

lemma write_document_fails:
  "read_existing_checksum (files st) t \<noteq> Some c \<Longrightarrow> \<not> writable env t \<Longrightarrow>
     write_document env False st dd t md c =
       (st\<lparr>log := log st @ [Info_write (files st t \<noteq> None) dd t]\<rparr>, Some OSError)"
  by (simp add: write_document_def Let_def)

lemma write_document_writes:
  "read_existing_checksum (files st) t \<noteq> Some c \<Longrightarrow> writable env t \<Longrightarrow>
     write_document env False st dd t md c =
       (st\<lparr>log := log st @ [Info_write (files st t \<noteq> None) dd t],
           files := (files st)(t \<mapsto> File md)\<rparr>, None)"
  by (simp add: write_document_def Let_def)


lemma write_document_only_target:
  "write_document env dry_run st dd t md c = (st', e) \<Longrightarrow> p \<noteq> t \<Longrightarrow> files st' p = files st p"
  by (auto simp: write_document_def Let_def split: if_splits)

lemma write_document_index:
  "write_document env dry_run st dd t md c = (st', e) \<Longrightarrow>
     index st' = index st \<and> index_updated st' = index_updated st
     \<and> legacy_state st' = legacy_state st \<and> processed st' = processed st"
  by (auto simp: write_document_def Let_def split: if_splits)






text \<open>A write that fails ends the pass, and with it the loop.\<close>

lemma ingest_record_write_fails:
  assumes "parsed_and_wanted env r msg"
    and "read_existing_checksum (files st) (target_of env now st r msg) \<noteq> Some (checksum_of env now r msg)"
    and "\<not> writable env (target_of env now st r msg)"
  shows "ingest_record env False now st r =
     ((searched env st r msg)\<lparr>log := log st @
         [Info_write (files st (target_of env now st r msg) \<noteq> None) (existing_of env st r msg \<noteq> None)
            (target_of env now st r msg)]\<rparr>,
      Some OSError)"
  using assms(2,3)
  by (simp add: ingest_record_wanted [OF assms(1)] write_document_fails)

lemma main_run_error:
  assumes "main_run env dry_run max_n now dsk matched = (dsk', lg, Some e)"
  shows "disk_index dsk' = disk_index dsk \<and> disk_state dsk' = disk_state dsk"
proof (cases "matched = []")
  case True
  then show ?thesis using assms by (simp add: main_run_def Let_def)
next
  case False
  then show ?thesis
    using assms by (auto simp: main_run_def Let_def split: prod.splits option.splits)
qed

lemma slice_to_Nil [simp]: "slice_to m [] = []"
  by (simp add: slice_to_def)

lemma ingest_loop_append:
  "ingest_loop env dry_run now st (rs1 @ rs2) =
     (case ingest_loop env dry_run now st rs1 of
        (st', Some e) \<Rightarrow> (st', Some e)
      | (st', None) \<Rightarrow> ingest_loop env dry_run now st' rs2)"
  by (induction rs1 arbitrary: st) (auto split: prod.splits option.splits)

lemma ingest_loop_write_fails:
  assumes "ingest_loop env False now st0 rs1 = (st, None)"
    and "parsed_and_wanted env r msg"
    and "read_existing_checksum (files st) (target_of env now st r msg) \<noteq> Some (checksum_of env now r msg)"
    and "\<not> writable env (target_of env now st r msg)"
  shows "ingest_loop env False now st0 (rs1 @ r # rs2) =
     ((searched env st r msg)\<lparr>log := log st @
         [Info_write (files st (target_of env now st r msg) \<noteq> None) (existing_of env st r msg \<noteq> None)
            (target_of env now st r msg)]\<rparr>,
      Some OSError)"
  using assms(1) ingest_record_write_fails [OF assms(2,3,4)]
  by (simp add: ingest_loop_append)

lemma main_run_write_fails:
  assumes "slice_to max_n matched = rs1 @ r # rs2"
    and "ingest_loop env False now (initial_state env dsk (length matched)) rs1 = (st, None)"
    and "parsed_and_wanted env r msg"
    and "read_existing_checksum (files st) (target_of env now st r msg) \<noteq> Some (checksum_of env now r msg)"
    and "\<not> writable env (target_of env now st r msg)"
  shows "main_run env False max_n now dsk matched =
     (dsk\<lparr>disk_files := files st\<rparr>,
      log st @ [Info_write (files st (target_of env now st r msg) \<noteq> None)
                  (existing_of env st r msg \<noteq> None) (target_of env now st r msg)],
      Some OSError)"
proof -
  have ne: "matched \<noteq> []" using assms(1) by auto
  show ?thesis
    using ne ingest_loop_write_fails [OF assms(2,3,4,5), of rs2]
    by (simp add: main_run_def Let_def assms(1))
qed

section \<open>What one pass of the loop leaves\<close>



lemma record_legacy_error:
  "record_legacy env st k t c d = (st', Some e) \<Longrightarrow> st' = st \<and> e = ValueError"
  by (auto simp: record_legacy_def relative_to_def Let_def split: sum.splits if_splits)

lemma index_record_index:
  "index (record_index st g m t) = index (record_index (st\<lparr>log := l, files := f\<rparr>) g m t)"
  by (simp add: record_index_def Let_def split: option.splits)







section \<open>A dry run beside a real run\<close>







lemma files_initial_state [simp]: "files (initial_state env dsk n) = disk_files dsk"
  by (simp add: initial_state_def Let_def)


section \<open>The examples, evaluated\<close>

lemma example_labels: "canonicalize_labels [''AI/Ingest''] = [''Save'']"
  by code_simp

lemma example_wanted: "wants_processing [''Save'']"
  by (simp add: wants_processing_def)

lemma example_parse_1:
  "message_from_bytes (example_mail_env ro) ''raw-1'' =
     Inr (example_message ''<m1@example.com>'' (Some ''Thu, 02 Jan 2025 12:00:00 +0000''))"
  by (simp add: example_mail_env_def)

lemma example_parse_3:
  "message_from_bytes (example_mail_env ro) ''raw-3'' = Inr (example_message ''<m3@example.com>'' None)"
  by (simp add: example_mail_env_def)

lemma example_build_returns: "build_raises (example_mail_env ro) msg i = None"
  by (simp add: example_mail_env_def)

lemma example_parsed_and_wanted_1:
  "parsed_and_wanted (example_mail_env ro) (example_fetched uid ''raw-1'' gm)
     (example_message ''<m1@example.com>'' (Some ''Thu, 02 Jan 2025 12:00:00 +0000''))"
  by (simp add: parsed_and_wanted_def example_fetched_def truthy_def example_parse_1
      example_labels example_wanted example_build_returns)

lemma example_parsed_and_wanted_3:
  "parsed_and_wanted (example_mail_env ro) (example_fetched uid ''raw-3'' gm)
     (example_message ''<m3@example.com>'' None)"
  by (simp add: parsed_and_wanted_def example_fetched_def truthy_def example_parse_3
      example_labels example_wanted example_build_returns)

lemma example_scan: "scan_recent_for_existing (example_mail_env ro) fs = empty_index"
  by (simp add: scan_recent_for_existing_def example_mail_env_def)


lemma example_no_existing:
  "index st = empty_index \<Longrightarrow> existing_of (example_mail_env ro) st r msg = None"
  by (simp add: existing_of_def resolve_existing_def index_lookup_def empty_index_def
      merge_index_def example_scan Let_def split: option.splits)

lemma example_subject:
  "doc_subject (document_of (example_mail_env ro) now r (example_message mid d)) = ''Hello''"
  by (simp add: document_of_def normalise_def Let_def decode_words_def example_message_def
      py_or_def truthy_def get_default_def example_mail_env_def)

lemma example_gm_msgid:
  "doc_gm_msgid (document_of env now (example_fetched uid raw (Some 1234567)) msg) = Some 1234567"
  by (simp add: document_of_def normalise_def Let_def example_fetched_def truthy_id_def)


lemma digit_char_values:
  "digit_char 0 = CHR ''0''" "digit_char 1 = CHR ''1''" "digit_char 2 = CHR ''2''"
  "digit_char 3 = CHR ''3''" "digit_char 4 = CHR ''4''" "digit_char 5 = CHR ''5''"
  "digit_char 6 = CHR ''6''" "digit_char 7 = CHR ''7''" "digit_char 8 = CHR ''8''"
  "digit_char 9 = CHR ''9''" "digit_char (Suc 0) = CHR ''1''"
  unfolding digit_char_def by code_simp+

lemma string_of_nat_2025: "string_of_nat 2025 = ''2025''"
  by (simp add: string_of_nat.simps digit_char_values)

lemma string_of_nat_1234567: "string_of_nat 1234567 = ''1234567''"
  by (simp add: string_of_nat.simps digit_char_values)

lemma string_of_nat_1: "string_of_nat (Suc 0) = ''1''"
  by (simp add: string_of_nat.simps digit_char_values)

lemma example_default_path:
  "default_path (example_mail_env ro)
     (document_of (example_mail_env ro) now (example_fetched uid raw (Some 1234567)) (example_message mid d))
   = ''/v/Emails/2025/Q125/hello-234567.md''"
proof -
  have ym: "local_year_month (example_mail_env ro) x = (2025, 1)" for x
    by (simp add: example_mail_env_def)
  have sl: "slugify (example_mail_env ro) ''Hello'' = ''hello''"
    by (simp add: example_mail_env_def)
  have vr: "vault_root (example_mail_env ro) = ''/v''"
    by (simp add: example_mail_env_def)
  show ?thesis
    by (simp add: default_path_def ym sl vr example_subject example_gm_msgid truthy_id_def
        last_chars_def string_of_nat_2025 string_of_nat_1234567 string_of_nat_1)
qed

lemma example_target:
  "index st = empty_index \<Longrightarrow>
   target_of (example_mail_env ro) now st (example_fetched uid raw (Some 1234567))
     (example_message mid d) = ''/v/Emails/2025/Q125/hello-234567.md''"
  by (simp add: target_of_def example_no_existing example_default_path)

lemma example_initial_state:
  "initial_state (example_mail_env ro) empty_disk n =
     \<lparr>index = empty_index, index_updated = False, files = Map.empty, legacy_state = Map.empty,
      log = [Info_seeding, Info_matched n], processed = 0\<rparr>"
  by (simp add: initial_state_def empty_disk_def load_index_def empty_index_def merge_index_def
      example_scan Let_def)

lemma read_existing_checksum_absent: "fs p = None \<Longrightarrow> read_existing_checksum fs p = None"
  by (simp add: read_existing_checksum_def)







section \<open>The claims on the ingestion loop\<close>

text \<open>
  Claim C5. A write of a note that fails is not caught. When the write for a record fails,
  after the records before it went through, the run ends there with \<open>OSError\<close>: the last
  line of the log is the \<open>Write\<close> or \<open>Update\<close> line of that record, so the program logs
  nothing about the failure and does not process the records after it, and it leaves
  without writing the index file or the legacy state file, so that the index on disk does
  not get the identifiers of that record.
\<close>

theorem write_failure_ends_run:
  assumes "slice_to max_n matched = rs1 @ r # rs2"
    and "ingest_loop env False now (initial_state env dsk (length matched)) rs1 = (st, None)"
    and "parsed_and_wanted env r msg"
    and "read_existing_checksum (files st) (target_of env now st r msg) \<noteq> Some (checksum_of env now r msg)"
    and "\<not> writable env (target_of env now st r msg)"
  shows "main_run env False max_n now dsk matched =
     (dsk\<lparr>disk_files := files st\<rparr>,
      log st @ [Info_write (files st (target_of env now st r msg) \<noteq> None)
                  (existing_of env st r msg \<noteq> None) (target_of env now st r msg)],
      Some OSError)"
  using assms by (rule main_run_write_fails)

theorem write_failure_ends_run_witness:
  "slice_to 500 [example_fetched 2 ''raw-1'' (Some 1234567), example_fetched 1 ''raw-2'' (Some 7654321)]
     = [] @ example_fetched 2 ''raw-1'' (Some 1234567) # [example_fetched 1 ''raw-2'' (Some 7654321)]
   \<and> \<not> writable (example_mail_env [''/v/Emails/2025/Q125/hello-234567.md''])
         ''/v/Emails/2025/Q125/hello-234567.md''
   \<and> main_run (example_mail_env [''/v/Emails/2025/Q125/hello-234567.md'']) False 500 noon_jan_3 empty_disk
       [example_fetched 2 ''raw-1'' (Some 1234567), example_fetched 1 ''raw-2'' (Some 7654321)]
     = (empty_disk,
        [Info_seeding, Info_matched 2, Info_write False False ''/v/Emails/2025/Q125/hello-234567.md''],
        Some OSError)"
proof -
  let ?t = "''/v/Emails/2025/Q125/hello-234567.md''"
  let ?env = "example_mail_env [?t]"
  let ?r = "example_fetched 2 ''raw-1'' (Some 1234567)"
  let ?r2 = "example_fetched 1 ''raw-2'' (Some 7654321)"
  let ?msg = "example_message ''<m1@example.com>'' (Some ''Thu, 02 Jan 2025 12:00:00 +0000'')"
  let ?st = "\<lparr>index = empty_index, index_updated = False, files = Map.empty, legacy_state = Map.empty,
      log = [Info_seeding, Info_matched 2], processed = 0\<rparr>"
  have i: "index ?st = empty_index" "files ?st = Map.empty" "log ?st = [Info_seeding, Info_matched 2]"
    by simp_all
  have t: "target_of ?env noon_jan_3 ?st ?r ?msg = ?t"
    using i(1) by (rule example_target)
  have ex: "existing_of ?env ?st ?r ?msg = None"
    using i(1) by (rule example_no_existing)
  have cut: "slice_to 500 [?r, ?r2] = [] @ ?r # [?r2]"
    by (simp add: slice_to_def)
  have before: "ingest_loop ?env False noon_jan_3 (initial_state ?env empty_disk (length [?r, ?r2])) []
      = (?st, None)"
    by (simp add: example_initial_state)
  have differs: "read_existing_checksum (files ?st) (target_of ?env noon_jan_3 ?st ?r ?msg)
      \<noteq> Some (checksum_of ?env noon_jan_3 ?r ?msg)"
    by (simp add: read_existing_checksum_absent)
  have fails: "\<not> writable ?env ?t"
    by (simp add: example_mail_env_def)
  have fails': "\<not> writable ?env (target_of ?env noon_jan_3 ?st ?r ?msg)"
    unfolding t by (rule fails)
  have d: "empty_disk\<lparr>disk_files := Map.empty\<rparr> = empty_disk"
    by (simp add: empty_disk_def)
  from write_failure_ends_run [OF cut before example_parsed_and_wanted_1 differs fails']
  have "main_run ?env False 500 noon_jan_3 empty_disk [?r, ?r2] =
      (empty_disk, [Info_seeding, Info_matched 2, Info_write False False ?t], Some OSError)"
    by (simp only: t ex i d) simp
  with cut fails show ?thesis by blast
qed

text \<open>
  The claim as stated fails: with two messages to ingest and a target of the first one
  that cannot be written, the run ends with the exception; the log has no line about the
  failure and none for the second message.
\<close>

theorem write_failure_not_logged_batch_aborted:
  "snd (main_run (example_mail_env [''/v/Emails/2025/Q125/hello-234567.md'']) False 500 noon_jan_3
          empty_disk
          [example_fetched 2 ''raw-1'' (Some 1234567), example_fetched 1 ''raw-2'' (Some 7654321)])
     = ([Info_seeding, Info_matched 2, Info_write False False ''/v/Emails/2025/Q125/hello-234567.md''],
        Some OSError)"
proof -
  let ?t = "''/v/Emails/2025/Q125/hello-234567.md''"
  let ?env = "example_mail_env [?t]"
  let ?r = "example_fetched 2 ''raw-1'' (Some 1234567)"
  let ?r2 = "example_fetched 1 ''raw-2'' (Some 7654321)"
  let ?msg = "example_message ''<m1@example.com>'' (Some ''Thu, 02 Jan 2025 12:00:00 +0000'')"
  let ?st = "\<lparr>index = empty_index, index_updated = False, files = Map.empty, legacy_state = Map.empty,
      log = [Info_seeding, Info_matched 2], processed = 0\<rparr>"
  have i: "index ?st = empty_index" "files ?st = Map.empty" "log ?st = [Info_seeding, Info_matched 2]"
    by simp_all
  have t: "target_of ?env noon_jan_3 ?st ?r ?msg = ?t"
    using i(1) by (rule example_target)
  have ex: "existing_of ?env ?st ?r ?msg = None"
    using i(1) by (rule example_no_existing)
  have cut: "slice_to 500 [?r, ?r2] = [] @ ?r # [?r2]"
    by (simp add: slice_to_def)
  have before: "ingest_loop ?env False noon_jan_3 (initial_state ?env empty_disk (length [?r, ?r2])) []
      = (?st, None)"
    by (simp add: example_initial_state)
  have differs: "read_existing_checksum (files ?st) (target_of ?env noon_jan_3 ?st ?r ?msg)
      \<noteq> Some (checksum_of ?env noon_jan_3 ?r ?msg)"
    by (simp add: read_existing_checksum_absent)
  have fails': "\<not> writable ?env (target_of ?env noon_jan_3 ?st ?r ?msg)"
    by (simp only: t) (simp add: example_mail_env_def)
  from main_run_write_fails [OF cut before example_parsed_and_wanted_1 differs fails']
  show ?thesis
    by (simp only: t ex i) simp
qed




section \<open>Records that cannot be read\<close>





end
